theory Spec2Isabelle
  imports Complex_Main
begin

section \<open>Data model (types.ts)\<close>

text \<open>
  The dashboard keeps four pieces of transient state: a log list, a list of findings, a list
  of crawl nodes and a record of counters. The records below follow the TypeScript
  interfaces. Field names that two interfaces share (\<open>id\<close>) carry the interface as a prefix,
  and \<open>type\<close> is written \<open>vtype\<close>. An optional field (\<open>payload_used?\<close>, \<open>parent?\<close>) is an
  \<open>option\<close>. Strings are lists of 8-bit code units. Counters are natural numbers: the code
  only ever adds one to a counter that starts at zero, which is exact in JavaScript numbers
  far beyond any session length.
\<close>

datatype LogLevel = INFO | WARN | ERROR | SUCCESS | SYSTEM

datatype Module = CRAWLER | DAST | FORM_BOT | CORE

datatype Severity = CRITICAL | HIGH | MEDIUM | LOW

datatype Status = pending | visited | vuln

text \<open>A log record as the service returns it; \<open>LogEntry\<close> adds the two generated fields.\<close>

record LogData =
  level :: LogLevel
  message :: string
  module :: Module

record LogEntry = LogData +
  log_id :: string
  timestamp :: string

text \<open>\<open>Omit<Vulnerability, 'id'>\<close> and \<open>Vulnerability\<close>.\<close>

record Finding =
  vtype :: string
  severity :: Severity
  description :: string
  location :: string
  payload_used :: "string option"

record Vulnerability = Finding +
  vuln_id :: string

record ScanStats =
  pagesCrawled :: nat
  formsDetected :: nat
  vulnsFound :: nat
  durationSeconds :: nat

record CrawlNode =
  node_id :: string
  url :: string
  status :: Status
  depth :: nat
  parent :: "string option"

text \<open>The value \<open>analyzeTargetForSimulation\<close> resolves to.\<close>

record SimData =
  sim_logs :: "LogData list"
  sim_vulnerabilities :: "Finding list"


section \<open>The environment\<close>

text \<open>
  Everything the code reads from outside is a field of \<open>Env\<close>: the build-time flag
  \<open>API_KEY_AVAILABLE\<close>, the outcome and duration of the k-th request to the generative API
  (the request is a constant prompt template and configuration around the target URL, so
  the outcome is indexed by the request number and the target URL), \<open>JSON.parse\<close> (\<open>None\<close>
  when it throws; a parsed value has the declared result type), the k-th value of
  \<open>Math.random()\<close>, the two number-to-string conversions applied to such values, and the
  display form of the clock.
\<close>

datatype JsError = ApiError | SyntaxError

datatype ApiOutcome = Rejects | Resolves "string option"

record Env =
  API_KEY_AVAILABLE :: bool
  generateContent :: "nat \<Rightarrow> string \<Rightarrow> ApiOutcome"
  apiLatency :: "nat \<Rightarrow> nat"
  JSON_parse :: "string \<Rightarrow> SimData option"
  Math_random :: "nat \<Rightarrow> rat"
  toString36 :: "rat \<Rightarrow> string"
  toString10 :: "rat \<Rightarrow> string"
  toLocaleTimeString :: "nat \<Rightarrow> string"


section \<open>String helpers\<close>

fun showNat :: "nat \<Rightarrow> string" where
  "showNat n = (if n < 10 then [char_of (48 + n)] else showNat (n div 10) @ [char_of (48 + n mod 10)])"

declare showNat.simps [simp del]

definition showInt :: "int \<Rightarrow> string" where
  "showInt k = (if k < 0 then ''-'' @ showNat (nat (- k)) else showNat (nat k))"

text \<open>\<open>s.replace(/p/g, '')\<close> for a literal, non-empty pattern \<open>p\<close>.\<close>

fun removeAll_str :: "string \<Rightarrow> string \<Rightarrow> string" where
  "removeAll_str p [] = []"
| "removeAll_str p (c # cs) =
     (if p \<noteq> [] \<and> take (length p) (c # cs) = p
      then removeAll_str p (drop (length p) (c # cs))
      else c # removeAll_str p cs)"

definition isWhiteSpace :: "char \<Rightarrow> bool" where
  "isWhiteSpace c = (of_char c \<in> {9, 10, 11, 12, 13, 32, 160 :: nat})"

definition trim :: "string \<Rightarrow> string" where
  "trim s = rev (dropWhile isWhiteSpace (rev (dropWhile isWhiteSpace s)))"


section \<open>The service (geminiService.ts)\<close>

text \<open>
  The body of the \<open>try\<close> block: one request; a rejected request or a \<open>JSON.parse\<close> failure
  is an error, an empty or missing \<open>response.text\<close> gives the empty result.
\<close>

definition emptySim :: SimData where
  "emptySim = \<lparr>sim_logs = [], sim_vulnerabilities = []\<rparr>"

definition cleanText :: "string \<Rightarrow> string" where
  "cleanText text = trim (removeAll_str ''```'' (removeAll_str ''```json'' text))"

definition tryRequest :: "Env \<Rightarrow> string \<Rightarrow> nat \<Rightarrow> JsError + SimData" where
  "tryRequest env targetUrl0 k =
     (case generateContent env k targetUrl0 of
        Rejects \<Rightarrow> Inl ApiError
      | Resolves text \<Rightarrow>
          (case text of
             None \<Rightarrow> Inr emptySim
           | Some t \<Rightarrow>
               if t = [] then Inr emptySim
               else (case JSON_parse env (cleanText t) of
                       None \<Rightarrow> Inl SyntaxError
                     | Some d \<Rightarrow> Inr d)))"

definition fallbackLogs :: "string \<Rightarrow> LogData list" where
  "fallbackLogs targetUrl0 =
     [\<lparr>level = ERROR, message = ''Gemini Uplink Failed. Reverting to local heuristics.'', module = CORE\<rparr>,
      \<lparr>level = WARN, message = ''Connection unstable. Retrying handshake...'', module = CRAWLER\<rparr>,
      \<lparr>level = INFO, message = ''Falling back to offline simulation database...'', module = CORE\<rparr>,
      \<lparr>level = WARN, message = ''Simulating scan for '' @ targetUrl0, module = CORE\<rparr>,
      \<lparr>level = INFO, message = ''GET /login [200 OK] - 45ms'', module = CRAWLER\<rparr>,
      \<lparr>level = INFO, message = ''Found input[name='username']'', module = FORM_BOT\<rparr>,
      \<lparr>level = INFO, message = ''Testing payload: ' OR 1=1 --'', module = DAST\<rparr>]"

definition fallbackSim :: "string \<Rightarrow> SimData" where
  "fallbackSim targetUrl0 = \<lparr>sim_logs = fallbackLogs targetUrl0, sim_vulnerabilities = []\<rparr>"

text \<open>
  \<open>analyzeTargetForSimulation\<close>: the \<open>try\<close> block with its \<open>catch\<close>. The last argument is the
  number of requests issued so far; the function returns what the promise settles to
  (\<open>Inl\<close> for a rejection) and the new number of requests.
\<close>

definition analyzeTargetForSimulation :: "Env \<Rightarrow> string \<Rightarrow> nat \<Rightarrow> (JsError + SimData) \<times> nat" where
  "analyzeTargetForSimulation env targetUrl0 k =
     (case tryRequest env targetUrl0 k of
        Inr d \<Rightarrow> (Inr d, k + 1)
      | Inl e \<Rightarrow> (Inr (fallbackSim targetUrl0), k + 1))"


section \<open>Application state and the event loop (App.tsx)\<close>

text \<open>
  The repository holds two variants of the \<open>App\<close> component. The first one (suffix \<open>_T\<close>)
  has the topology tab: it keeps crawl nodes, runs five ticks and its \<open>addLog\<close> keeps a
  trailing window of the log. The second one (suffix \<open>_P\<close>) has no crawl nodes, runs four
  ticks and its \<open>addLog\<close> keeps every entry.

  \<open>World2\<close> is the React state of the second variant together with what the browser keeps
  for it: the event-loop clock in milliseconds, the pending \<open>setTimeout\<close> callbacks of the
  log batches (due time and log record, in registration order), the next due time of the
  one-second statistics interval while it is set, and the numbers of \<open>Math.random()\<close>
  calls and of API requests made so far. \<open>World\<close> adds the crawl nodes of the first
  variant. A state setter is a state transformer applied in program order, and an updater
  function handed to a setter runs once for its update.
\<close>

record World2 =
  logs :: "LogEntry list"
  vulnerabilities :: "Vulnerability list"
  isScanning :: bool
  targetUrl :: string
  stats :: ScanStats
  now :: nat
  timeouts :: "(nat \<times> LogData) list"
  interval :: "nat option"
  randomCalls :: nat
  apiCalls :: nat

record World = World2 +
  crawlNodes :: "CrawlNode list"

datatype 'w Completion = Normal 'w | Throw JsError 'w

definition random_call :: "Env \<Rightarrow> 'a World2_scheme \<Rightarrow> rat \<times> 'a World2_scheme" where
  "random_call env w = (Math_random env (randomCalls w), w\<lparr>randomCalls := randomCalls w + 1\<rparr>)"

subsection \<open>addLog\<close>

definition newLog :: "Env \<Rightarrow> LogLevel \<Rightarrow> string \<Rightarrow> Module \<Rightarrow> 'a World2_scheme \<Rightarrow> LogEntry" where
  "newLog env lv msg md w =
     \<lparr>level = lv, message = msg, module = md,
      log_id = take 9 (drop 2 (toString36 env (Math_random env (randomCalls w)))),
      timestamp = toLocaleTimeString env (now w)\<rparr>"

text \<open>First variant: \<open>setLogs(prev => [...prev.slice(-49), newLog])\<close>.\<close>

definition addLog_T :: "Env \<Rightarrow> LogLevel \<Rightarrow> string \<Rightarrow> Module \<Rightarrow> 'a World2_scheme \<Rightarrow> 'a World2_scheme" where
  "addLog_T env lv msg md w =
     w\<lparr>logs := drop (length (logs w) - 49) (logs w) @ [newLog env lv msg md w],
       randomCalls := randomCalls w + 1\<rparr>"

text \<open>Second variant: \<open>setLogs(prev => [...prev, newLog])\<close>.\<close>

definition addLog_P :: "Env \<Rightarrow> LogLevel \<Rightarrow> string \<Rightarrow> Module \<Rightarrow> 'a World2_scheme \<Rightarrow> 'a World2_scheme" where
  "addLog_P env lv msg md w =
     w\<lparr>logs := logs w @ [newLog env lv msg md w],
       randomCalls := randomCalls w + 1\<rparr>"

subsection \<open>Timers\<close>

definition zeroStats :: ScanStats where
  "zeroStats = \<lparr>pagesCrawled = 0, formsDetected = 0, vulnsFound = 0, durationSeconds = 0\<rparr>"

definition incPagesCrawled :: "'a World2_scheme \<Rightarrow> 'a World2_scheme" where
  "incPagesCrawled w = w\<lparr>stats := (stats w)\<lparr>pagesCrawled := pagesCrawled (stats w) + 1\<rparr>\<rparr>"

definition incFormsDetected :: "'a World2_scheme \<Rightarrow> 'a World2_scheme" where
  "incFormsDetected w = w\<lparr>stats := (stats w)\<lparr>formsDetected := formsDetected (stats w) + 1\<rparr>\<rparr>"

definition incVulnsFound :: "'a World2_scheme \<Rightarrow> 'a World2_scheme" where
  "incVulnsFound w = w\<lparr>stats := (stats w)\<lparr>vulnsFound := vulnsFound (stats w) + 1\<rparr>\<rparr>"

text \<open>The callback of the statistics interval.\<close>

definition durationTick :: "'a World2_scheme \<Rightarrow> 'a World2_scheme" where
  "durationTick w = w\<lparr>stats := (stats w)\<lparr>durationSeconds := durationSeconds (stats w) + 1\<rparr>\<rparr>"

text \<open>
  The callback that \<open>simData.logs.forEach\<close> hands to \<open>setTimeout\<close> for one log record; the
  first argument is the \<open>addLog\<close> of the variant.
\<close>

definition logTimer ::
  "(LogLevel \<Rightarrow> string \<Rightarrow> Module \<Rightarrow> 'a World2_scheme \<Rightarrow> 'a World2_scheme) \<Rightarrow> LogData \<Rightarrow> 'a World2_scheme \<Rightarrow> 'a World2_scheme" where
  "logTimer addLog l w =
     (let w1 = addLog (level l) (message l) (module l) w;
          w2 = (if module l = CRAWLER then incPagesCrawled w1 else w1)
      in if module l = FORM_BOT then incFormsDetected w2 else w2)"

text \<open>\<open>simData.logs.forEach((log, idx) => setTimeout(..., idx * delay))\<close>.\<close>

definition registerLogTimers :: "nat \<Rightarrow> LogData list \<Rightarrow> 'a World2_scheme \<Rightarrow> 'a World2_scheme" where
  "registerLogTimers delay ls w =
     w\<lparr>timeouts := timeouts w @ map (\<lambda>(idx, l). (now w + idx * delay, l)) (enumerate 0 ls)\<rparr>"

text \<open>
  \<open>setIsScanning\<close> with the effect that depends on it: the interval is set when the flag
  turns true and cleared when it turns false.
\<close>

definition setIsScanning :: "bool \<Rightarrow> 'a World2_scheme \<Rightarrow> 'a World2_scheme" where
  "setIsScanning b w =
     w\<lparr>isScanning := b,
       interval := (if b then (if isScanning w then interval w else Some (now w + 1000)) else None)\<rparr>"

datatype Callback = LogTimer LogData | IntervalTick

definition intervalDues :: "nat \<Rightarrow> nat option \<Rightarrow> nat list" where
  "intervalDues t iv =
     (case iv of
        None \<Rightarrow> []
      | Some d \<Rightarrow> if d \<le> t then map (\<lambda>k. d + 1000 * k) [0..<(t - d) div 1000 + 1] else [])"

definition nextInterval :: "nat \<Rightarrow> nat option \<Rightarrow> nat option" where
  "nextInterval t iv =
     (case iv of
        None \<Rightarrow> None
      | Some d \<Rightarrow> Some (if d \<le> t then d + 1000 * ((t - d) div 1000 + 1) else d))"

text \<open>
  The callbacks due up to time \<open>t\<close>, in firing order: by due time, and at one due time the
  log callbacks in registration order before the interval.
\<close>

definition dueCallbacks :: "nat \<Rightarrow> 'a World2_scheme \<Rightarrow> (nat \<times> Callback) list" where
  "dueCallbacks t w =
     sort_key fst
       (map (\<lambda>(d, l). (d, LogTimer l)) (filter (\<lambda>(d, l). d \<le> t) (timeouts w))
        @ map (\<lambda>d. (d, IntervalTick)) (intervalDues t (interval w)))"

definition runCallback ::
  "(LogLevel \<Rightarrow> string \<Rightarrow> Module \<Rightarrow> 'a World2_scheme \<Rightarrow> 'a World2_scheme) \<Rightarrow> 'a World2_scheme \<Rightarrow> nat \<times> Callback \<Rightarrow> 'a World2_scheme" where
  "runCallback addLog w c =
     (case c of
        (d, LogTimer l) \<Rightarrow> logTimer addLog l (w\<lparr>now := d\<rparr>)
      | (d, IntervalTick) \<Rightarrow> durationTick (w\<lparr>now := d\<rparr>))"

text \<open>
  Waiting: \<open>await new Promise(r => setTimeout(r, ms))\<close>, and the wait for the API. The
  callbacks that fall due run in order, then the clock stands at the end of the wait.
\<close>

definition sleep ::
  "(LogLevel \<Rightarrow> string \<Rightarrow> Module \<Rightarrow> 'a World2_scheme \<Rightarrow> 'a World2_scheme) \<Rightarrow> nat \<Rightarrow> 'a World2_scheme \<Rightarrow> 'a World2_scheme" where
  "sleep addLog ms w =
     (let t = now w + ms;
          w' = foldl (runCallback addLog) w (dueCallbacks t w)
      in w'\<lparr>now := t,
            timeouts := filter (\<lambda>(d, l). \<not> d \<le> t) (timeouts w'),
            interval := nextInterval t (interval w')\<rparr>)"

subsection \<open>Merging one finding\<close>

text \<open>
  The updater handed to \<open>setVulnerabilities\<close> for one finding \<open>v\<close> of a batch, with the
  \<open>addLog\<close> and \<open>setStats\<close> calls it makes. \<open>prev.find(...)\<close> yields an object, which is
  truthy, or \<open>undefined\<close>.
\<close>

definition withId :: "Finding \<Rightarrow> string \<Rightarrow> Vulnerability" where
  "withId v i =
     \<lparr>vtype = vtype v, severity = severity v, description = description v,
      location = location v, payload_used = payload_used v, vuln_id = i\<rparr>"

definition vulnUpdater_T :: "Env \<Rightarrow> 'a World2_scheme \<Rightarrow> Finding \<Rightarrow> 'a World2_scheme" where
  "vulnUpdater_T env w v =
     (if find (\<lambda>p. vtype p = vtype v) (vulnerabilities w) \<noteq> None then w
      else
        let w1 = addLog_T env WARN (''ALERT: Found '' @ vtype v @ '' at '' @ location v) DAST w;
            w2 = incVulnsFound w1;
            (r, w3) = random_call env w2
        in w3\<lparr>vulnerabilities := vulnerabilities w3 @ [withId v (toString36 env r)]\<rparr>)"

definition vulnUpdater_P :: "Env \<Rightarrow> 'a World2_scheme \<Rightarrow> Finding \<Rightarrow> 'a World2_scheme" where
  "vulnUpdater_P env w v =
     (if find (\<lambda>p. vtype p = vtype v) (vulnerabilities w) \<noteq> None then w
      else
        let w1 = addLog_P env WARN (''VULNERABILITY DETECTED: '' @ vtype v) DAST w;
            w2 = incVulnsFound w1;
            (r, w3) = random_call env w2
        in w3\<lparr>vulnerabilities := vulnerabilities w3 @ [withId v (toString36 env r)]\<rparr>)"

subsection \<open>First variant: startScan with the topology\<close>

definition newPaths :: "string list" where
  "newPaths = [''/api/v1'', ''/login'', ''/dashboard'', ''/settings'', ''/search'',
               ''/assets/js'', ''/.env'', ''/config.php'']"

text \<open>\<open>newPaths[k]\<close> in a template string: out of range it reads \<open>undefined\<close>.\<close>

definition pathAt :: "int \<Rightarrow> string" where
  "pathAt k = (if 0 \<le> k \<and> k < int (length newPaths) then newPaths ! nat k else ''undefined'')"

definition rootNode :: CrawlNode where
  "rootNode = \<lparr>node_id = ''root'', url = ''/'', status = visited, depth = 0, parent = None\<rparr>"

text \<open>
  The \<open>await\<close> of the service call: the request is issued, the callbacks that fall due while
  it is in flight run, and the promise settles.
\<close>

definition awaitAnalyze ::
  "(LogLevel \<Rightarrow> string \<Rightarrow> Module \<Rightarrow> 'a World2_scheme \<Rightarrow> 'a World2_scheme) \<Rightarrow> Env \<Rightarrow> string \<Rightarrow> 'a World2_scheme
     \<Rightarrow> (JsError + SimData) \<times> 'a World2_scheme" where
  "awaitAnalyze addLog env targetUrl0 w =
     (let (res, k) = analyzeTargetForSimulation env targetUrl0 (apiCalls w)
      in (res, sleep addLog (apiLatency env (apiCalls w)) (w\<lparr>apiCalls := k\<rparr>)))"

text \<open>What one iteration does with the batch it received (lines 92 to 125).\<close>

definition mergeBatch_T :: "Env \<Rightarrow> nat \<Rightarrow> SimData \<Rightarrow> World \<Rightarrow> World" where
  "mergeBatch_T env i simData w =
     (let (r1, w1) = random_call env w;
          (r2, w2) = random_call env w1;
          path = pathAt \<lfloor>r1 * 8\<rfloor> @ ''?id='' @ showInt \<lfloor>r2 * 100\<rfloor>;
          (r3, w3) = random_call env w2;
          w4 = w3\<lparr>crawlNodes := crawlNodes w3 @
                 [\<lparr>node_id = toString10 env r3, url = path,
                   status = (if length (sim_vulnerabilities simData) > 0 then vuln else visited),
                   depth = i + 1, parent = None\<rparr>]\<rparr>;
          w5 = registerLogTimers 150 (sim_logs simData) w4;
          w6 = (if length (sim_vulnerabilities simData) > 0
                then foldl (vulnUpdater_T env) w5 (sim_vulnerabilities simData)
                else w5)
      in sleep (addLog_T env) 3000 w6)"

text \<open>One iteration of the loop body after the \<open>break\<close> test.\<close>

definition tick_T :: "Env \<Rightarrow> string \<Rightarrow> nat \<Rightarrow> World \<Rightarrow> World Completion" where
  "tick_T env targetUrl0 i w =
     (let w1 = addLog_T env INFO (''Deep-scanning path segment '' @ showNat (i + 1) @ ''...'') CRAWLER w;
          (res, w2) = awaitAnalyze (addLog_T env) env targetUrl0 w1
      in case res of
           Inl e \<Rightarrow> Throw e w2
         | Inr simData \<Rightarrow> Normal (mergeBatch_T env i simData w2))"

text \<open>
  \<open>for (let i = 0; i < 5; i++) { if (!isScanning) break; ... }\<close>. The callback closes over
  \<open>isScanning\<close> and \<open>targetUrl\<close> as they were when it was created, so the loop takes both as
  arguments: \<open>setIsScanning\<close> does not change them.
\<close>

function scanLoop_T :: "Env \<Rightarrow> bool \<Rightarrow> string \<Rightarrow> nat \<Rightarrow> World \<Rightarrow> World Completion" where
  "scanLoop_T env isScanning0 targetUrl0 i w =
     (if i < 5 then
        (if \<not> isScanning0 then Normal w
         else (case tick_T env targetUrl0 i w of
                 Throw e w' \<Rightarrow> Throw e w'
               | Normal w' \<Rightarrow> scanLoop_T env isScanning0 targetUrl0 (i + 1) w'))
      else Normal w)"
  by pat_completeness auto
termination
  by (relation "measure (\<lambda>(env, isScanning0, targetUrl0, i, w). 5 - i)") auto

declare scanLoop_T.simps [simp del]

definition resetSession_T :: "World \<Rightarrow> World" where
  "resetSession_T w = w\<lparr>logs := [], vulnerabilities := [], crawlNodes := [], stats := zeroStats\<rparr>"

text \<open>
  Everything after the reset, in three parts: the announcements, the 800 ms wait and the root
  node (lines 74 to 82); the loop; and the end of the \<open>try\<close> statement (lines 128 to 133):
  the closing log entry, or the one of the \<open>catch\<close> clause, and the \<open>finally\<close> clause.
\<close>

definition announce_T :: "Env \<Rightarrow> string \<Rightarrow> World \<Rightarrow> World" where
  "announce_T env targetUrl0 w =
     (let w1 = addLog_T env SYSTEM ''Initializing Sentinel Agent v2.4'' CORE w;
          w2 = addLog_T env INFO (''Target acquired: '' @ targetUrl0) CORE w1;
          w3 = sleep (addLog_T env) 800 w2
      in w3\<lparr>crawlNodes := [rootNode]\<rparr>)"

definition finish_T :: "Env \<Rightarrow> World Completion \<Rightarrow> World" where
  "finish_T env c =
     setIsScanning False
       (case c of
          Normal w \<Rightarrow> addLog_T env SUCCESS ''Mission Parameters Met. Finalizing data...'' CORE w
        | Throw e w \<Rightarrow> addLog_T env ERROR ''Simulation error: check console.'' CORE w)"

definition runSession_T :: "Env \<Rightarrow> bool \<Rightarrow> string \<Rightarrow> World \<Rightarrow> World" where
  "runSession_T env isScanning0 targetUrl0 w =
     finish_T env (scanLoop_T env isScanning0 targetUrl0 0 (announce_T env targetUrl0 w))"

definition startScan_T :: "Env \<Rightarrow> World \<Rightarrow> World" where
  "startScan_T env w =
     (if targetUrl w = [] then w
      else if \<not> API_KEY_AVAILABLE env
      then addLog_T env ERROR ''API_KEY not found in environment.'' CORE w
      else runSession_T env (isScanning w) (targetUrl w) (resetSession_T (setIsScanning True w)))"

text \<open>The handler of the ABORT button: \<open>() => setIsScanning(false)\<close>.\<close>

definition abortScan_T :: "World \<Rightarrow> World" where
  "abortScan_T w = setIsScanning False w"

subsection \<open>Second variant: startScan without the topology\<close>

definition mergeBatch_P :: "Env \<Rightarrow> SimData \<Rightarrow> 'a World2_scheme \<Rightarrow> 'a World2_scheme" where
  "mergeBatch_P env simData w =
     (let w1 = registerLogTimers 200 (sim_logs simData) w;
          w2 = (if length (sim_vulnerabilities simData) > 0
                then foldl (vulnUpdater_P env) w1 (sim_vulnerabilities simData)
                else w1)
      in sleep (addLog_P env) 4000 w2)"

definition tick_P :: "Env \<Rightarrow> string \<Rightarrow> 'a World2_scheme \<Rightarrow> 'a World2_scheme Completion" where
  "tick_P env targetUrl0 w =
     (let (res, w1) = awaitAnalyze (addLog_P env) env targetUrl0 w
      in case res of
           Inl e \<Rightarrow> Throw e w1
         | Inr simData \<Rightarrow> Normal (mergeBatch_P env simData w1))"

text \<open>\<open>const steps = 4; for (...) { if (!isScanning && i > 0) break; ... }\<close>.\<close>

function scanLoop_P :: "Env \<Rightarrow> bool \<Rightarrow> string \<Rightarrow> nat \<Rightarrow> 'a World2_scheme \<Rightarrow> 'a World2_scheme Completion" where
  "scanLoop_P env isScanning0 targetUrl0 i w =
     (if i < 4 then
        (if \<not> isScanning0 \<and> i > 0 then Normal w
         else (case tick_P env targetUrl0 w of
                 Throw e w' \<Rightarrow> Throw e w'
               | Normal w' \<Rightarrow> scanLoop_P env isScanning0 targetUrl0 (i + 1) w'))
      else Normal w)"
  by pat_completeness auto
termination
  by (relation "measure (\<lambda>(env, isScanning0, targetUrl0, i, w). 4 - i)") auto

declare scanLoop_P.simps [simp del]

definition resetSession_P :: "'a World2_scheme \<Rightarrow> 'a World2_scheme" where
  "resetSession_P w = w\<lparr>logs := [], vulnerabilities := [], stats := zeroStats\<rparr>"

text \<open>The same three parts (lines 322 to 329, the loop, lines 365 to 371).\<close>

definition announce_P :: "Env \<Rightarrow> string \<Rightarrow> 'a World2_scheme \<Rightarrow> 'a World2_scheme" where
  "announce_P env targetUrl0 w =
     (let w1 = addLog_P env SYSTEM ''Initializing Sentinel Agent v2.4'' CORE w;
          w2 = addLog_P env INFO (''Target acquired: '' @ targetUrl0) CORE w1;
          w3 = addLog_P env INFO ''Loading stealth modules (puppeteer-extra-plugin-stealth)...'' CRAWLER w2;
          w4 = sleep (addLog_P env) 800 w3;
          (r, w5) = random_call env w4
      in addLog_P env SUCCESS
           (''Headless Browser Launched (PID: '' @ showInt (\<lfloor>r * 9000\<rfloor> + 1000) @ '')'') CRAWLER w5)"

definition finish_P :: "Env \<Rightarrow> 'a World2_scheme Completion \<Rightarrow> 'a World2_scheme" where
  "finish_P env c =
     setIsScanning False
       (case c of
          Normal w \<Rightarrow> addLog_P env SUCCESS ''Scan Complete. Generating Report...'' CORE w
        | Throw e w \<Rightarrow> addLog_P env ERROR ''Agent connection severed unexpectedly.'' CORE w)"

definition runSession_P :: "Env \<Rightarrow> bool \<Rightarrow> string \<Rightarrow> 'a World2_scheme \<Rightarrow> 'a World2_scheme" where
  "runSession_P env isScanning0 targetUrl0 w =
     finish_P env (scanLoop_P env isScanning0 targetUrl0 0 (announce_P env targetUrl0 w))"

definition startScan_P :: "Env \<Rightarrow> 'a World2_scheme \<Rightarrow> 'a World2_scheme" where
  "startScan_P env w =
     (if targetUrl w = []
      then addLog_P env ERROR ''Target URL is required.'' CORE w
      else if \<not> API_KEY_AVAILABLE env
      then addLog_P env ERROR ''API_KEY not found in environment.'' CORE w
      else runSession_P env (isScanning w) (targetUrl w) (resetSession_P (setIsScanning True w)))"

definition stopScan_P :: "Env \<Rightarrow> 'a World2_scheme \<Rightarrow> 'a World2_scheme" where
  "stopScan_P env w = addLog_P env WARN ''Manual Override: Scan Aborted.'' CORE (setIsScanning False w)"

text \<open>The state a completion carries, whether the loop ended or threw.\<close>

fun worldOf :: "'w Completion \<Rightarrow> 'w" where
  "worldOf (Normal w) = w"
| "worldOf (Throw e w) = w"

text \<open>Pointwise order on the counters.\<close>

definition statsLe :: "ScanStats \<Rightarrow> ScanStats \<Rightarrow> bool" where
  "statsLe a b =
     (pagesCrawled a \<le> pagesCrawled b \<and> formsDetected a \<le> formsDetected b \<and>
      vulnsFound a \<le> vulnsFound b \<and> durationSeconds a \<le> durationSeconds b)"

text \<open>The finding list and the counters after the synchronous part of a batch.\<close>

definition tickNode :: "Env \<Rightarrow> nat \<Rightarrow> SimData \<Rightarrow> World \<Rightarrow> CrawlNode" where
  "tickNode env i simData w =
     \<lparr>node_id = toString10 env (Math_random env (randomCalls w + 2)),
      url = pathAt \<lfloor>Math_random env (randomCalls w) * 8\<rfloor> @ ''?id='' @
            showInt \<lfloor>Math_random env (randomCalls w + 1) * 100\<rfloor>,
      status = (if sim_vulnerabilities simData \<noteq> [] then vuln else visited),
      depth = i + 1, parent = None\<rparr>"


section \<open>Example inputs\<close>

text \<open>
  A small environment and a few states, used to instantiate the theorems below. The first
  request resolves to a batch of two log records and three findings, two of them of the
  same type; the second request is rejected; later ones resolve without text.
\<close>

definition xss :: Finding where
  "xss = \<lparr>vtype = ''XSS'', severity = HIGH, description = ''reflected input'',
          location = ''/search'', payload_used = None\<rparr>"

definition sqli :: Finding where
  "sqli = \<lparr>vtype = ''SQLi'', severity = CRITICAL, description = ''id parameter'',
           location = ''/api/v1'', payload_used = Some ''1 OR 1=1''\<rparr>"

definition exampleBatch :: SimData where
  "exampleBatch =
     \<lparr>sim_logs = [\<lparr>level = INFO, message = ''GET /'', module = CRAWLER\<rparr>,
                  \<lparr>level = INFO, message = ''found a form'', module = FORM_BOT\<rparr>],
      sim_vulnerabilities = [xss, sqli, xss]\<rparr>"

definition exampleResponse :: "nat \<Rightarrow> string \<Rightarrow> ApiOutcome" where
  "exampleResponse k u =
     (if k = 0 then Resolves (Some ''{}'') else if k = 1 then Rejects else Resolves None)"

definition exampleParse :: "string \<Rightarrow> SimData option" where
  "exampleParse s = (if s = ''{}'' then Some exampleBatch else None)"

definition exampleRandom :: "nat \<Rightarrow> rat" where
  "exampleRandom k = 3 / 7"

definition exampleString :: "rat \<Rightarrow> string" where
  "exampleString r = ''0.fffffffffff''"

definition exampleClock :: "nat \<Rightarrow> string" where
  "exampleClock t = showNat (t div 1000)"

definition exampleLatency :: "nat \<Rightarrow> nat" where
  "exampleLatency k = 1200"

definition exampleEnv :: Env where
  "exampleEnv =
     \<lparr>API_KEY_AVAILABLE = True, generateContent = exampleResponse, apiLatency = exampleLatency,
      JSON_parse = exampleParse, Math_random = exampleRandom, toString36 = exampleString,
      toString10 = exampleString, toLocaleTimeString = exampleClock\<rparr>"

text \<open>The state in which the interface can call \<open>startScan\<close>: a target is typed in and no scan
  is running. \<open>idleWorld\<close> is for the first variant, \<open>idleWorld2\<close> for the second.\<close>

definition idleWorld :: World where
  "idleWorld =
     \<lparr>logs = [], vulnerabilities = [], isScanning = False, targetUrl = ''http://example.com'',
      stats = zeroStats, now = 0, timeouts = [], interval = None, randomCalls = 0, apiCalls = 0,
      crawlNodes = []\<rparr>"

definition idleWorld2 :: World2 where
  "idleWorld2 =
     \<lparr>logs = [], vulnerabilities = [], isScanning = False, targetUrl = ''http://example.com'',
      stats = zeroStats, now = 0, timeouts = [], interval = None, randomCalls = 0, apiCalls = 0\<rparr>"

text \<open>A state with one finding on the list, and one with fifty log entries.\<close>

definition foundWorld :: World where
  "foundWorld = idleWorld\<lparr>vulnerabilities := [withId xss ''0.a''], stats := zeroStats\<lparr>vulnsFound := 1\<rparr>\<rparr>"

definition foundWorld2 :: World2 where
  "foundWorld2 = idleWorld2\<lparr>vulnerabilities := [withId xss ''0.a''], stats := zeroStats\<lparr>vulnsFound := 1\<rparr>\<rparr>"

definition exampleEntry :: LogEntry where
  "exampleEntry = \<lparr>level = INFO, message = ''GET /'', module = CRAWLER, log_id = ''fffffffff'', timestamp = ''0''\<rparr>"

definition fullLogWorld2 :: World2 where
  "fullLogWorld2 = idleWorld2\<lparr>logs := replicate 50 exampleEntry\<rparr>"

text \<open>No target typed in.\<close>

definition blankWorld :: World where
  "blankWorld = idleWorld\<lparr>targetUrl := []\<rparr>"

definition blankWorld2 :: World2 where
  "blankWorld2 = idleWorld2\<lparr>targetUrl := []\<rparr>"


section \<open>Frame lemmas\<close>

text \<open>Which fields each operation leaves alone.\<close>

lemma foldl_frame:
  assumes "\<And>w c. g (f w c) = g w"
  shows "g (foldl f w cs) = g w"
  by (induction cs arbitrary: w) (simp_all add: assms)

lemma foldl_invariant:
  assumes "I w" and "\<And>w c. I w \<Longrightarrow> I (f w c)"
  shows "I (foldl f w cs)"
  using assms(1) by (induction cs arbitrary: w) (simp_all add: assms(2))

lemma random_call_frame [simp]:
  "fst (random_call env w) = Math_random env (randomCalls w)"
  "logs (snd (random_call env w)) = logs w"
  "vulnerabilities (snd (random_call env w)) = vulnerabilities w"
  "isScanning (snd (random_call env w)) = isScanning w"
  "targetUrl (snd (random_call env w)) = targetUrl w"
  "stats (snd (random_call env w)) = stats w"
  "now (snd (random_call env w)) = now w"
  "timeouts (snd (random_call env w)) = timeouts w"
  "interval (snd (random_call env w)) = interval w"
  "randomCalls (snd (random_call env w)) = randomCalls w + 1"
  "apiCalls (snd (random_call env w)) = apiCalls w"
  "World2.more (snd (random_call env w)) = World2.more w"
  by (simp_all add: random_call_def)

lemma random_call_crawlNodes [simp]: "crawlNodes (snd (random_call env w)) = crawlNodes w"
  by (simp add: random_call_def)

lemma addLog_T_frame [simp]:
  "logs (addLog_T env lv m md w) = drop (length (logs w) - 49) (logs w) @ [newLog env lv m md w]"
  "vulnerabilities (addLog_T env lv m md w) = vulnerabilities w"
  "isScanning (addLog_T env lv m md w) = isScanning w"
  "targetUrl (addLog_T env lv m md w) = targetUrl w"
  "stats (addLog_T env lv m md w) = stats w"
  "now (addLog_T env lv m md w) = now w"
  "timeouts (addLog_T env lv m md w) = timeouts w"
  "interval (addLog_T env lv m md w) = interval w"
  "randomCalls (addLog_T env lv m md w) = randomCalls w + 1"
  "apiCalls (addLog_T env lv m md w) = apiCalls w"
  "World2.more (addLog_T env lv m md w) = World2.more w"
  by (simp_all add: addLog_T_def)

lemma addLog_T_crawlNodes [simp]: "crawlNodes (addLog_T env lv m md w) = crawlNodes w"
  by (simp add: addLog_T_def)

lemma addLog_P_frame [simp]:
  "logs (addLog_P env lv m md w) = logs w @ [newLog env lv m md w]"
  "vulnerabilities (addLog_P env lv m md w) = vulnerabilities w"
  "isScanning (addLog_P env lv m md w) = isScanning w"
  "targetUrl (addLog_P env lv m md w) = targetUrl w"
  "stats (addLog_P env lv m md w) = stats w"
  "now (addLog_P env lv m md w) = now w"
  "timeouts (addLog_P env lv m md w) = timeouts w"
  "interval (addLog_P env lv m md w) = interval w"
  "randomCalls (addLog_P env lv m md w) = randomCalls w + 1"
  "apiCalls (addLog_P env lv m md w) = apiCalls w"
  "World2.more (addLog_P env lv m md w) = World2.more w"
  by (simp_all add: addLog_P_def)

lemma durationTick_frame [simp]:
  "logs (durationTick w) = logs w"
  "vulnerabilities (durationTick w) = vulnerabilities w"
  "isScanning (durationTick w) = isScanning w"
  "targetUrl (durationTick w) = targetUrl w"
  "apiCalls (durationTick w) = apiCalls w"
  "World2.more (durationTick w) = World2.more w"
  "stats (durationTick w) = (stats w)\<lparr>durationSeconds := durationSeconds (stats w) + 1\<rparr>"
  by (simp_all add: durationTick_def)

lemma durationTick_crawlNodes [simp]: "crawlNodes (durationTick w) = crawlNodes w"
  by (simp add: durationTick_def)

lemma setIsScanning_frame [simp]:
  "logs (setIsScanning b w) = logs w"
  "vulnerabilities (setIsScanning b w) = vulnerabilities w"
  "isScanning (setIsScanning b w) = b"
  "targetUrl (setIsScanning b w) = targetUrl w"
  "stats (setIsScanning b w) = stats w"
  "now (setIsScanning b w) = now w"
  "timeouts (setIsScanning b w) = timeouts w"
  "randomCalls (setIsScanning b w) = randomCalls w"
  "apiCalls (setIsScanning b w) = apiCalls w"
  "World2.more (setIsScanning b w) = World2.more w"
  by (simp_all add: setIsScanning_def)

lemma setIsScanning_crawlNodes [simp]: "crawlNodes (setIsScanning b w) = crawlNodes w"
  by (simp add: setIsScanning_def)

lemma registerLogTimers_frame [simp]:
  "logs (registerLogTimers d ls w) = logs w"
  "vulnerabilities (registerLogTimers d ls w) = vulnerabilities w"
  "isScanning (registerLogTimers d ls w) = isScanning w"
  "targetUrl (registerLogTimers d ls w) = targetUrl w"
  "stats (registerLogTimers d ls w) = stats w"
  "now (registerLogTimers d ls w) = now w"
  "interval (registerLogTimers d ls w) = interval w"
  "randomCalls (registerLogTimers d ls w) = randomCalls w"
  "apiCalls (registerLogTimers d ls w) = apiCalls w"
  "World2.more (registerLogTimers d ls w) = World2.more w"
  by (simp_all add: registerLogTimers_def)

lemma registerLogTimers_crawlNodes [simp]: "crawlNodes (registerLogTimers d ls w) = crawlNodes w"
  by (simp add: registerLogTimers_def)

text \<open>The log callback, for each variant's addLog.\<close>

lemma logTimer_T_frame [simp]:
  "vulnerabilities (logTimer (addLog_T env) l w) = vulnerabilities w"
  "isScanning (logTimer (addLog_T env) l w) = isScanning w"
  "targetUrl (logTimer (addLog_T env) l w) = targetUrl w"
  "apiCalls (logTimer (addLog_T env) l w) = apiCalls w"
  "World2.more (logTimer (addLog_T env) l w) = World2.more w"
  by (simp_all add: logTimer_def Let_def incPagesCrawled_def incFormsDetected_def)

lemma logTimer_T_crawlNodes [simp]: "crawlNodes (logTimer (addLog_T env) l w) = crawlNodes w"
  by (simp add: logTimer_def Let_def incPagesCrawled_def incFormsDetected_def)

lemma logTimer_P_frame [simp]:
  "vulnerabilities (logTimer (addLog_P env) l w) = vulnerabilities w"
  "isScanning (logTimer (addLog_P env) l w) = isScanning w"
  "targetUrl (logTimer (addLog_P env) l w) = targetUrl w"
  "apiCalls (logTimer (addLog_P env) l w) = apiCalls w"
  "World2.more (logTimer (addLog_P env) l w) = World2.more w"
  by (simp_all add: logTimer_def Let_def incPagesCrawled_def incFormsDetected_def)

lemma logTimer_T_stats:
  "stats (logTimer (addLog_T env) l w) =
     (stats w)\<lparr>pagesCrawled := pagesCrawled (stats w) + (if module l = CRAWLER then 1 else 0),
               formsDetected := formsDetected (stats w) + (if module l = FORM_BOT then 1 else 0)\<rparr>"
  by (simp add: logTimer_def Let_def incPagesCrawled_def incFormsDetected_def)

lemma logTimer_P_stats:
  "stats (logTimer (addLog_P env) l w) =
     (stats w)\<lparr>pagesCrawled := pagesCrawled (stats w) + (if module l = CRAWLER then 1 else 0),
               formsDetected := formsDetected (stats w) + (if module l = FORM_BOT then 1 else 0)\<rparr>"
  by (simp add: logTimer_def Let_def incPagesCrawled_def incFormsDetected_def)

lemma runCallback_T_frame [simp]:
  "vulnerabilities (runCallback (addLog_T env) w c) = vulnerabilities w"
  "isScanning (runCallback (addLog_T env) w c) = isScanning w"
  "targetUrl (runCallback (addLog_T env) w c) = targetUrl w"
  "apiCalls (runCallback (addLog_T env) w c) = apiCalls w"
  "World2.more (runCallback (addLog_T env) w c) = World2.more w"
  by (simp_all add: runCallback_def split: prod.split Callback.split)

lemma runCallback_T_crawlNodes [simp]: "crawlNodes (runCallback (addLog_T env) w c) = crawlNodes w"
  by (simp add: runCallback_def split: prod.split Callback.split)

lemma runCallback_P_frame [simp]:
  "vulnerabilities (runCallback (addLog_P env) w c) = vulnerabilities w"
  "isScanning (runCallback (addLog_P env) w c) = isScanning w"
  "targetUrl (runCallback (addLog_P env) w c) = targetUrl w"
  "apiCalls (runCallback (addLog_P env) w c) = apiCalls w"
  "World2.more (runCallback (addLog_P env) w c) = World2.more w"
  by (simp_all add: runCallback_def split: prod.split Callback.split)

lemma sleep_T_frame [simp]:
  "vulnerabilities (sleep (addLog_T env) ms w) = vulnerabilities w"
  "isScanning (sleep (addLog_T env) ms w) = isScanning w"
  "targetUrl (sleep (addLog_T env) ms w) = targetUrl w"
  "apiCalls (sleep (addLog_T env) ms w) = apiCalls w"
  "World2.more (sleep (addLog_T env) ms w) = World2.more w"
  "now (sleep (addLog_T env) ms w) = now w + ms"
  by (simp_all add: sleep_def Let_def foldl_frame)

lemma sleep_T_crawlNodes [simp]: "crawlNodes (sleep (addLog_T env) ms w) = crawlNodes w"
  by (simp add: sleep_def Let_def foldl_frame)

lemma sleep_P_frame [simp]:
  "vulnerabilities (sleep (addLog_P env) ms w) = vulnerabilities w"
  "isScanning (sleep (addLog_P env) ms w) = isScanning w"
  "targetUrl (sleep (addLog_P env) ms w) = targetUrl w"
  "apiCalls (sleep (addLog_P env) ms w) = apiCalls w"
  "World2.more (sleep (addLog_P env) ms w) = World2.more w"
  "now (sleep (addLog_P env) ms w) = now w + ms"
  by (simp_all add: sleep_def Let_def foldl_frame)

section \<open>Facts about the service and the updaters\<close>

lemma analyze_eq:
  "analyzeTargetForSimulation env u k =
     (Inr (case tryRequest env u k of Inr d \<Rightarrow> d | Inl e \<Rightarrow> fallbackSim u), k + 1)"
  by (simp add: analyzeTargetForSimulation_def split: sum.split)

lemma awaitAnalyze_eq:
  "awaitAnalyze addLog env u w =
     (fst (analyzeTargetForSimulation env u (apiCalls w)),
      sleep addLog (apiLatency env (apiCalls w)) (w\<lparr>apiCalls := apiCalls w + 1\<rparr>))"
  by (simp add: awaitAnalyze_def analyze_eq)

subsection \<open>Counters under the callbacks\<close>

lemma statsLe_refl [simp]: "statsLe a a"
  by (simp add: statsLe_def)

lemma statsLe_trans: "statsLe a b \<Longrightarrow> statsLe b c \<Longrightarrow> statsLe a c"
  by (auto simp: statsLe_def)

lemma runCallback_T_statsLe: "statsLe (stats w) (stats (runCallback (addLog_T env) w c))"
  by (simp add: runCallback_def logTimer_T_stats statsLe_def split: prod.split Callback.split)

lemma runCallback_P_statsLe: "statsLe (stats w) (stats (runCallback (addLog_P env) w c))"
  by (simp add: runCallback_def logTimer_P_stats statsLe_def split: prod.split Callback.split)

lemma runCallback_T_vulnsFound [simp]:
  "vulnsFound (stats (runCallback (addLog_T env) w c)) = vulnsFound (stats w)"
  by (simp add: runCallback_def logTimer_T_stats split: prod.split Callback.split)

lemma runCallback_P_vulnsFound [simp]:
  "vulnsFound (stats (runCallback (addLog_P env) w c)) = vulnsFound (stats w)"
  by (simp add: runCallback_def logTimer_P_stats split: prod.split Callback.split)

lemma sleep_T_statsLe: "statsLe (stats w) (stats (sleep (addLog_T env) ms w))"
proof -
  have "statsLe (stats w) (stats (foldl (runCallback (addLog_T env)) w cs))" for cs
    by (rule foldl_invariant [where I = "\<lambda>w'. statsLe (stats w) (stats w')"])
       (auto intro: statsLe_trans runCallback_T_statsLe)
  then show ?thesis by (simp add: sleep_def Let_def)
qed

lemma sleep_P_statsLe: "statsLe (stats w) (stats (sleep (addLog_P env) ms w))"
proof -
  have "statsLe (stats w) (stats (foldl (runCallback (addLog_P env)) w cs))" for cs
    by (rule foldl_invariant [where I = "\<lambda>w'. statsLe (stats w) (stats w')"])
       (auto intro: statsLe_trans runCallback_P_statsLe)
  then show ?thesis by (simp add: sleep_def Let_def)
qed

lemma sleep_T_vulnsFound [simp]:
  "vulnsFound (stats (sleep (addLog_T env) ms w)) = vulnsFound (stats w)"
  by (simp add: sleep_def Let_def foldl_frame [where g = "\<lambda>w. vulnsFound (stats w)"])

lemma sleep_P_vulnsFound [simp]:
  "vulnsFound (stats (sleep (addLog_P env) ms w)) = vulnsFound (stats w)"
  by (simp add: sleep_def Let_def foldl_frame [where g = "\<lambda>w. vulnsFound (stats w)"])

subsection \<open>Merging a finding\<close>

lemma find_type_None: "(find (\<lambda>p. vtype p = t) vs = None) = (t \<notin> set (map vtype vs))"
  by (auto simp: find_None_iff)

lemma vulnUpdater_T_dup: "vtype v \<in> set (map vtype (vulnerabilities w)) \<Longrightarrow> vulnUpdater_T env w v = w"
  by (simp add: vulnUpdater_T_def find_type_None)

lemma vulnUpdater_P_dup: "vtype v \<in> set (map vtype (vulnerabilities w)) \<Longrightarrow> vulnUpdater_P env w v = w"
  by (simp add: vulnUpdater_P_def find_type_None)

lemma vulnUpdater_T_new:
  assumes "vtype v \<notin> set (map vtype (vulnerabilities w))"
  shows "vulnerabilities (vulnUpdater_T env w v) =
           vulnerabilities w @ [withId v (toString36 env (Math_random env (randomCalls w + 1)))]"
    and "stats (vulnUpdater_T env w v) = (stats w)\<lparr>vulnsFound := vulnsFound (stats w) + 1\<rparr>"
    and "logs (vulnUpdater_T env w v) =
           logs (addLog_T env WARN (''ALERT: Found '' @ vtype v @ '' at '' @ location v) DAST w)"
  using assms
  by (simp_all add: vulnUpdater_T_def find_type_None Let_def incVulnsFound_def random_call_def
      split: prod.split)

lemma vulnUpdater_P_new:
  assumes "vtype v \<notin> set (map vtype (vulnerabilities w))"
  shows "vulnerabilities (vulnUpdater_P env w v) =
           vulnerabilities w @ [withId v (toString36 env (Math_random env (randomCalls w + 1)))]"
    and "stats (vulnUpdater_P env w v) = (stats w)\<lparr>vulnsFound := vulnsFound (stats w) + 1\<rparr>"
    and "logs (vulnUpdater_P env w v) =
           logs (addLog_P env WARN (''VULNERABILITY DETECTED: '' @ vtype v) DAST w)"
  using assms
  by (simp_all add: vulnUpdater_P_def find_type_None Let_def incVulnsFound_def random_call_def
      split: prod.split)

lemma withId_vtype [simp]: "vtype (withId v i) = vtype v"
  by (simp add: withId_def)

lemma vulnUpdater_T_frame [simp]:
  "isScanning (vulnUpdater_T env w v) = isScanning w"
  "targetUrl (vulnUpdater_T env w v) = targetUrl w"
  "apiCalls (vulnUpdater_T env w v) = apiCalls w"
  "World2.more (vulnUpdater_T env w v) = World2.more w"
  by (simp_all add: vulnUpdater_T_def Let_def incVulnsFound_def random_call_def split: prod.split)

lemma vulnUpdater_T_crawlNodes [simp]: "crawlNodes (vulnUpdater_T env w v) = crawlNodes w"
  by (simp add: vulnUpdater_T_def Let_def incVulnsFound_def random_call_def split: prod.split)

lemma vulnUpdater_P_frame [simp]:
  "isScanning (vulnUpdater_P env w v) = isScanning w"
  "targetUrl (vulnUpdater_P env w v) = targetUrl w"
  "apiCalls (vulnUpdater_P env w v) = apiCalls w"
  "World2.more (vulnUpdater_P env w v) = World2.more w"
  by (simp_all add: vulnUpdater_P_def Let_def incVulnsFound_def random_call_def split: prod.split)



lemma vulnUpdater_T_count:
  "vulnsFound (stats w) = length (vulnerabilities w) \<Longrightarrow>
   vulnsFound (stats (vulnUpdater_T env w v)) = length (vulnerabilities (vulnUpdater_T env w v))"
  by (cases "vtype v \<in> set (map vtype (vulnerabilities w))")
     (simp_all add: vulnUpdater_T_dup vulnUpdater_T_new)

lemma vulnUpdater_P_count:
  "vulnsFound (stats w) = length (vulnerabilities w) \<Longrightarrow>
   vulnsFound (stats (vulnUpdater_P env w v)) = length (vulnerabilities (vulnUpdater_P env w v))"
  by (cases "vtype v \<in> set (map vtype (vulnerabilities w))")
     (simp_all add: vulnUpdater_P_dup vulnUpdater_P_new)

lemma vulnUpdater_T_statsLe: "statsLe (stats w) (stats (vulnUpdater_T env w v))"
  by (cases "vtype v \<in> set (map vtype (vulnerabilities w))")
     (simp_all add: vulnUpdater_T_dup vulnUpdater_T_new statsLe_def)

lemma vulnUpdater_P_statsLe: "statsLe (stats w) (stats (vulnUpdater_P env w v))"
  by (cases "vtype v \<in> set (map vtype (vulnerabilities w))")
     (simp_all add: vulnUpdater_P_dup vulnUpdater_P_new statsLe_def)

subsection \<open>Merging a batch\<close>

lemma foldl_vulnUpdater_T_frame [simp]:
  "isScanning (foldl (vulnUpdater_T env) w vs) = isScanning w"
  "targetUrl (foldl (vulnUpdater_T env) w vs) = targetUrl w"
  "apiCalls (foldl (vulnUpdater_T env) w vs) = apiCalls w"
  "World2.more (foldl (vulnUpdater_T env) w vs) = World2.more w"
  by (simp_all add: foldl_frame)

lemma foldl_vulnUpdater_T_crawlNodes [simp]:
  "crawlNodes (foldl (vulnUpdater_T env) w vs) = crawlNodes w"
  by (simp add: foldl_frame)

lemma foldl_vulnUpdater_P_frame [simp]:
  "isScanning (foldl (vulnUpdater_P env) w vs) = isScanning w"
  "targetUrl (foldl (vulnUpdater_P env) w vs) = targetUrl w"
  "apiCalls (foldl (vulnUpdater_P env) w vs) = apiCalls w"
  "World2.more (foldl (vulnUpdater_P env) w vs) = World2.more w"
  by (simp_all add: foldl_frame)



lemma foldl_vulnUpdater_T_count:
  "vulnsFound (stats w) = length (vulnerabilities w) \<Longrightarrow>
   vulnsFound (stats (foldl (vulnUpdater_T env) w vs)) = length (vulnerabilities (foldl (vulnUpdater_T env) w vs))"
  by (rule foldl_invariant [where I = "\<lambda>w. vulnsFound (stats w) = length (vulnerabilities w)"])
     (simp_all add: vulnUpdater_T_count)

lemma foldl_vulnUpdater_P_count:
  "vulnsFound (stats w) = length (vulnerabilities w) \<Longrightarrow>
   vulnsFound (stats (foldl (vulnUpdater_P env) w vs)) = length (vulnerabilities (foldl (vulnUpdater_P env) w vs))"
  by (rule foldl_invariant [where I = "\<lambda>w. vulnsFound (stats w) = length (vulnerabilities w)"])
     (simp_all add: vulnUpdater_P_count)

lemma foldl_vulnUpdater_T_statsLe: "statsLe (stats w) (stats (foldl (vulnUpdater_T env) w vs))"
  by (rule foldl_invariant [where I = "\<lambda>w'. statsLe (stats w) (stats w')"])
     (auto intro: statsLe_trans vulnUpdater_T_statsLe)

lemma foldl_vulnUpdater_P_statsLe: "statsLe (stats w) (stats (foldl (vulnUpdater_P env) w vs))"
  by (rule foldl_invariant [where I = "\<lambda>w'. statsLe (stats w) (stats w')"])
     (auto intro: statsLe_trans vulnUpdater_P_statsLe)

lemma mergeBatch_T_crawlNodes:
  "crawlNodes (mergeBatch_T env i d w) = crawlNodes w @ [tickNode env i d w]"
  by (simp add: mergeBatch_T_def Let_def case_prod_beta tickNode_def random_call_def)

lemma mergeBatch_T_frame [simp]:
  "isScanning (mergeBatch_T env i d w) = isScanning w"
  "targetUrl (mergeBatch_T env i d w) = targetUrl w"
  "apiCalls (mergeBatch_T env i d w) = apiCalls w"
  by (simp_all add: mergeBatch_T_def Let_def case_prod_beta)

lemma mergeBatch_P_frame [simp]:
  "isScanning (mergeBatch_P env d w) = isScanning w"
  "targetUrl (mergeBatch_P env d w) = targetUrl w"
  "apiCalls (mergeBatch_P env d w) = apiCalls w"
  "World2.more (mergeBatch_P env d w) = World2.more w"
  by (simp_all add: mergeBatch_P_def Let_def)



lemma mergeBatch_T_count:
  "vulnsFound (stats w) = length (vulnerabilities w) \<Longrightarrow>
   vulnsFound (stats (mergeBatch_T env i d w)) = length (vulnerabilities (mergeBatch_T env i d w))"
  by (simp add: mergeBatch_T_def Let_def case_prod_beta foldl_vulnUpdater_T_count)

lemma mergeBatch_P_count:
  "vulnsFound (stats w) = length (vulnerabilities w) \<Longrightarrow>
   vulnsFound (stats (mergeBatch_P env d w)) = length (vulnerabilities (mergeBatch_P env d w))"
  by (simp add: mergeBatch_P_def Let_def foldl_vulnUpdater_P_count)

lemma mergeBatch_T_statsLe: "statsLe (stats w) (stats (mergeBatch_T env i d w))"
proof -
  let ?w5 = "registerLogTimers 150 (sim_logs d)
               ((snd (random_call env (snd (random_call env (snd (random_call env w))))))
                  \<lparr>crawlNodes := crawlNodes w @ [tickNode env i d w]\<rparr>)"
  let ?w6 = "if length (sim_vulnerabilities d) > 0
             then foldl (vulnUpdater_T env) ?w5 (sim_vulnerabilities d) else ?w5"
  have eq: "mergeBatch_T env i d w = sleep (addLog_T env) 3000 ?w6"
    by (simp add: mergeBatch_T_def Let_def case_prod_beta tickNode_def random_call_def)
  have "statsLe (stats w) (stats ?w6)"
    using foldl_vulnUpdater_T_statsLe [of ?w5 env "sim_vulnerabilities d"] by simp
  then show ?thesis
    unfolding eq by (rule statsLe_trans) (rule sleep_T_statsLe)
qed

lemma mergeBatch_P_statsLe: "statsLe (stats w) (stats (mergeBatch_P env d w))"
proof -
  let ?w1 = "registerLogTimers 200 (sim_logs d) w"
  let ?w2 = "if length (sim_vulnerabilities d) > 0
             then foldl (vulnUpdater_P env) ?w1 (sim_vulnerabilities d) else ?w1"
  have eq: "mergeBatch_P env d w = sleep (addLog_P env) 4000 ?w2"
    by (simp add: mergeBatch_P_def Let_def)
  have "statsLe (stats w) (stats ?w2)"
    using foldl_vulnUpdater_P_statsLe [of ?w1 env "sim_vulnerabilities d"] by simp
  then show ?thesis
    unfolding eq by (rule statsLe_trans) (rule sleep_P_statsLe)
qed

subsection \<open>One iteration\<close>

lemma tick_T_eq:
  "tick_T env u i w =
     Normal (mergeBatch_T env i
       (case tryRequest env u (apiCalls w) of Inr d \<Rightarrow> d | Inl e \<Rightarrow> fallbackSim u)
       (sleep (addLog_T env) (apiLatency env (apiCalls w))
          ((addLog_T env INFO (''Deep-scanning path segment '' @ showNat (i + 1) @ ''...'') CRAWLER w)
             \<lparr>apiCalls := apiCalls w + 1\<rparr>)))"
  by (simp add: tick_T_def Let_def awaitAnalyze_eq analyze_eq)

lemma tick_P_eq:
  "tick_P env u w =
     Normal (mergeBatch_P env
       (case tryRequest env u (apiCalls w) of Inr d \<Rightarrow> d | Inl e \<Rightarrow> fallbackSim u)
       (sleep (addLog_P env) (apiLatency env (apiCalls w)) (w\<lparr>apiCalls := apiCalls w + 1\<rparr>)))"
  by (simp add: tick_P_def Let_def awaitAnalyze_eq analyze_eq)

lemma tick_T_frame [simp]:
  "isScanning (worldOf (tick_T env u i w)) = isScanning w"
  "targetUrl (worldOf (tick_T env u i w)) = targetUrl w"
  "apiCalls (worldOf (tick_T env u i w)) = apiCalls w + 1"
  by (simp_all add: tick_T_eq)

lemma tick_P_frame [simp]:
  "isScanning (worldOf (tick_P env u w)) = isScanning w"
  "targetUrl (worldOf (tick_P env u w)) = targetUrl w"
  "apiCalls (worldOf (tick_P env u w)) = apiCalls w + 1"
  "World2.more (worldOf (tick_P env u w)) = World2.more w"
  by (simp_all add: tick_P_eq)



lemma tick_T_count:
  "vulnsFound (stats w) = length (vulnerabilities w) \<Longrightarrow>
   vulnsFound (stats (worldOf (tick_T env u i w))) = length (vulnerabilities (worldOf (tick_T env u i w)))"
  by (simp add: tick_T_eq mergeBatch_T_count)

lemma tick_P_count:
  "vulnsFound (stats w) = length (vulnerabilities w) \<Longrightarrow>
   vulnsFound (stats (worldOf (tick_P env u w))) = length (vulnerabilities (worldOf (tick_P env u w)))"
  by (simp add: tick_P_eq mergeBatch_P_count)

lemma tick_T_statsLe: "statsLe (stats w) (stats (worldOf (tick_T env u i w)))"
proof -
  let ?w2 = "sleep (addLog_T env) (apiLatency env (apiCalls w))
          ((addLog_T env INFO (''Deep-scanning path segment '' @ showNat (i + 1) @ ''...'') CRAWLER w)
             \<lparr>apiCalls := apiCalls w + 1\<rparr>)"
  have "statsLe (stats w) (stats ?w2)"
    using sleep_T_statsLe [of "(addLog_T env INFO (''Deep-scanning path segment '' @ showNat (i + 1) @ ''...'') CRAWLER w)
             \<lparr>apiCalls := apiCalls w + 1\<rparr>" env "apiLatency env (apiCalls w)"] by simp
  then show ?thesis
    unfolding tick_T_eq worldOf.simps by (rule statsLe_trans) (rule mergeBatch_T_statsLe)
qed

lemma tick_P_statsLe: "statsLe (stats w) (stats (worldOf (tick_P env u w)))"
proof -
  have "statsLe (stats w) (stats (sleep (addLog_P env) (apiLatency env (apiCalls w)) (w\<lparr>apiCalls := apiCalls w + 1\<rparr>)))"
    using sleep_P_statsLe [of "w\<lparr>apiCalls := apiCalls w + 1\<rparr>" env "apiLatency env (apiCalls w)"] by simp
  then show ?thesis
    unfolding tick_P_eq worldOf.simps by (rule statsLe_trans) (rule mergeBatch_P_statsLe)
qed

lemma tick_T_crawlNodes:
  assumes "fst (analyzeTargetForSimulation env u (apiCalls w)) = Inr d"
  shows "\<exists>n. crawlNodes (worldOf (tick_T env u i w)) = crawlNodes w @ [n] \<and> parent n = None \<and>
             depth n = i + 1 \<and> status n = (if sim_vulnerabilities d \<noteq> [] then vuln else visited)"
  using assms by (simp add: tick_T_eq analyze_eq mergeBatch_T_crawlNodes tickNode_def)

subsection \<open>The loops\<close>

lemma scanLoop_T_invariant:
  assumes "I w" and "\<And>i w. I w \<Longrightarrow> I (worldOf (tick_T env u i w))"
  shows "I (worldOf (scanLoop_T env c u i w))"
  using assms
proof (induction env c u i w rule: scanLoop_T.induct)
  case (1 env isScanning0 targetUrl0 i w)
  show ?case
  proof (cases "i < 5 \<and> isScanning0")
    case True
    obtain w' where t: "tick_T env targetUrl0 i w = Normal w'"
      using tick_T_eq by blast
    have "I w'"
      using "1.prems"(2) [OF "1.prems"(1), of i] t by simp
    then have "I (worldOf (scanLoop_T env isScanning0 targetUrl0 (i + 1) w'))"
      using "1.IH" [of w'] True t "1.prems"(2) by simp
    then show ?thesis
      using True t by (subst scanLoop_T.simps) simp
  next
    case False
    then show ?thesis
      using "1.prems"(1) by (subst scanLoop_T.simps) auto
  qed
qed

lemma scanLoop_P_invariant:
  assumes "I w" and "\<And>w. I w \<Longrightarrow> I (worldOf (tick_P env u w))"
  shows "I (worldOf (scanLoop_P env c u i w))"
  using assms
proof (induction env c u i w rule: scanLoop_P.induct)
  case (1 env isScanning0 targetUrl0 i w)
  show ?case
  proof (cases "i < 4 \<and> \<not> (\<not> isScanning0 \<and> i > 0)")
    case True
    obtain w' where t: "tick_P env targetUrl0 w = Normal w'"
      using tick_P_eq by blast
    have "I w'"
      using "1.prems"(2) [OF "1.prems"(1)] t by simp
    then have "I (worldOf (scanLoop_P env isScanning0 targetUrl0 (i + 1) w'))"
      using "1.IH" [of w'] True t "1.prems"(2) by simp
    then show ?thesis
      using True t by (subst scanLoop_P.simps) auto
  next
    case False
    then show ?thesis
      using "1.prems"(1) by (subst scanLoop_P.simps) auto
  qed
qed

text \<open>How many requests a loop issues, by the value of the captured flag.\<close>

lemma scanLoop_T_stale: "scanLoop_T env False u i w = Normal w"
  by (subst scanLoop_T.simps) simp

lemma scanLoop_T_requests: "apiCalls (worldOf (scanLoop_T env True u i w)) = apiCalls w + (5 - i)"
proof (induction env True u i w rule: scanLoop_T.induct)
  case (1 env targetUrl0 i w)
  show ?case
  proof (cases "i < 5")
    case True
    obtain w' where t: "tick_T env targetUrl0 i w = Normal w'"
      using tick_T_eq by blast
    have a: "apiCalls w' = apiCalls w + 1"
      using tick_T_frame(3) [of env targetUrl0 i w] t by simp
    have "apiCalls (worldOf (scanLoop_T env True targetUrl0 (i + 1) w')) = apiCalls w' + (5 - (i + 1))"
      using "1.hyps" [of w'] True t by simp
    then show ?thesis
      using True t a by (subst scanLoop_T.simps) simp
  next
    case False
    then show ?thesis by (subst scanLoop_T.simps) simp
  qed
qed

lemma scanLoop_P_stale: "scanLoop_P env False u 0 w = tick_P env u w"
proof -
  obtain w' where t: "tick_P env u w = Normal w'"
    using tick_P_eq by blast
  have "scanLoop_P env False u (0 + 1) w' = Normal w'"
    by (subst scanLoop_P.simps) simp
  then show ?thesis
    using t by (subst scanLoop_P.simps) simp
qed

lemma scanLoop_P_requests: "apiCalls (worldOf (scanLoop_P env True u i w)) = apiCalls w + (4 - i)"
proof (induction env True u i w rule: scanLoop_P.induct)
  case (1 env targetUrl0 i w)
  show ?case
  proof (cases "i < 4")
    case True
    obtain w' where t: "tick_P env targetUrl0 w = Normal w'"
      using tick_P_eq by blast
    have a: "apiCalls w' = apiCalls w + 1"
      using tick_P_frame(3) [of env targetUrl0 w] t by simp
    have "apiCalls (worldOf (scanLoop_P env True targetUrl0 (i + 1) w')) = apiCalls w' + (4 - (i + 1))"
      using "1.hyps" [of w'] True t by simp
    then show ?thesis
      using True t a by (subst scanLoop_P.simps) simp
  next
    case False
    then show ?thesis by (subst scanLoop_P.simps) simp
  qed
qed

subsection \<open>The session\<close>

lemma announce_T_frame [simp]:
  "vulnerabilities (announce_T env u w) = vulnerabilities w"
  "isScanning (announce_T env u w) = isScanning w"
  "targetUrl (announce_T env u w) = targetUrl w"
  "apiCalls (announce_T env u w) = apiCalls w"
  "crawlNodes (announce_T env u w) = [rootNode]"
  "vulnsFound (stats (announce_T env u w)) = vulnsFound (stats w)"
  by (simp_all add: announce_T_def Let_def)

lemma announce_P_frame [simp]:
  "vulnerabilities (announce_P env u w) = vulnerabilities w"
  "isScanning (announce_P env u w) = isScanning w"
  "targetUrl (announce_P env u w) = targetUrl w"
  "apiCalls (announce_P env u w) = apiCalls w"
  "World2.more (announce_P env u w) = World2.more w"
  "vulnsFound (stats (announce_P env u w)) = vulnsFound (stats w)"
  by (simp_all add: announce_P_def Let_def case_prod_beta)

lemma announce_T_statsLe: "statsLe (stats w) (stats (announce_T env u w))"
  using sleep_T_statsLe [of "addLog_T env INFO (''Target acquired: '' @ u) CORE
      (addLog_T env SYSTEM ''Initializing Sentinel Agent v2.4'' CORE w)" env 800]
  by (simp add: announce_T_def Let_def)

lemma announce_P_statsLe: "statsLe (stats w) (stats (announce_P env u w))"
  using sleep_P_statsLe [of "addLog_P env INFO ''Loading stealth modules (puppeteer-extra-plugin-stealth)...'' CRAWLER
      (addLog_P env INFO (''Target acquired: '' @ u) CORE
        (addLog_P env SYSTEM ''Initializing Sentinel Agent v2.4'' CORE w))" env 800]
  by (simp add: announce_P_def Let_def case_prod_beta)

lemma finish_T_frame [simp]:
  "vulnerabilities (finish_T env c) = vulnerabilities (worldOf c)"
  "isScanning (finish_T env c) = False"
  "targetUrl (finish_T env c) = targetUrl (worldOf c)"
  "apiCalls (finish_T env c) = apiCalls (worldOf c)"
  "crawlNodes (finish_T env c) = crawlNodes (worldOf c)"
  "stats (finish_T env c) = stats (worldOf c)"
  by (cases c; simp add: finish_T_def)+

lemma finish_P_frame [simp]:
  "vulnerabilities (finish_P env c) = vulnerabilities (worldOf c)"
  "isScanning (finish_P env c) = False"
  "targetUrl (finish_P env c) = targetUrl (worldOf c)"
  "apiCalls (finish_P env c) = apiCalls (worldOf c)"
  "World2.more (finish_P env c) = World2.more (worldOf c)"
  "stats (finish_P env c) = stats (worldOf c)"
  by (cases c; simp add: finish_P_def)+

lemma resetSession_T_fields [simp]:
  "logs (resetSession_T w) = []"
  "vulnerabilities (resetSession_T w) = []"
  "crawlNodes (resetSession_T w) = []"
  "stats (resetSession_T w) = zeroStats"
  "isScanning (resetSession_T w) = isScanning w"
  "targetUrl (resetSession_T w) = targetUrl w"
  "apiCalls (resetSession_T w) = apiCalls w"
  by (simp_all add: resetSession_T_def)

lemma resetSession_P_fields [simp]:
  "logs (resetSession_P w) = []"
  "vulnerabilities (resetSession_P w) = []"
  "stats (resetSession_P w) = zeroStats"
  "isScanning (resetSession_P w) = isScanning w"
  "targetUrl (resetSession_P w) = targetUrl w"
  "apiCalls (resetSession_P w) = apiCalls w"
  "World2.more (resetSession_P w) = World2.more w"
  by (simp_all add: resetSession_P_def)

lemma zeroStats_fields [simp]:
  "pagesCrawled zeroStats = 0" "formsDetected zeroStats = 0"
  "vulnsFound zeroStats = 0" "durationSeconds zeroStats = 0"
  by (simp_all add: zeroStats_def)

lemma startScan_T_session:
  "targetUrl w \<noteq> [] \<Longrightarrow> API_KEY_AVAILABLE env \<Longrightarrow>
   startScan_T env w = runSession_T env (isScanning w) (targetUrl w) (resetSession_T (setIsScanning True w))"
  by (simp add: startScan_T_def)

lemma startScan_P_session:
  "targetUrl w \<noteq> [] \<Longrightarrow> API_KEY_AVAILABLE env \<Longrightarrow>
   startScan_P env w = runSession_P env (isScanning w) (targetUrl w) (resetSession_P (setIsScanning True w))"
  by (simp add: startScan_P_def)



lemma runSession_T_count:
  "vulnsFound (stats w) = length (vulnerabilities w) \<Longrightarrow>
   vulnsFound (stats (runSession_T env c u w)) = length (vulnerabilities (runSession_T env c u w))"
  unfolding runSession_T_def finish_T_frame
  by (rule scanLoop_T_invariant [where I = "\<lambda>w. vulnsFound (stats w) = length (vulnerabilities w)"])
     (simp_all add: tick_T_count)

lemma runSession_P_count:
  "vulnsFound (stats w) = length (vulnerabilities w) \<Longrightarrow>
   vulnsFound (stats (runSession_P env c u w)) = length (vulnerabilities (runSession_P env c u w))"
  unfolding runSession_P_def finish_P_frame
  by (rule scanLoop_P_invariant [where I = "\<lambda>w. vulnsFound (stats w) = length (vulnerabilities w)"])
     (simp_all add: tick_P_count)

lemma scanLoop_T_statsLe: "statsLe (stats w) (stats (worldOf (scanLoop_T env c u i w)))"
  by (rule scanLoop_T_invariant [where I = "\<lambda>w'. statsLe (stats w) (stats w')"])
     (auto intro: statsLe_trans tick_T_statsLe)

lemma scanLoop_P_statsLe: "statsLe (stats w) (stats (worldOf (scanLoop_P env c u i w)))"
  by (rule scanLoop_P_invariant [where I = "\<lambda>w'. statsLe (stats w) (stats w')"])
     (auto intro: statsLe_trans tick_P_statsLe)

lemma runSession_T_statsLe: "statsLe (stats w) (stats (runSession_T env c u w))"
  unfolding runSession_T_def finish_T_frame
  by (rule statsLe_trans [OF announce_T_statsLe scanLoop_T_statsLe])

lemma runSession_P_statsLe: "statsLe (stats w) (stats (runSession_P env c u w))"
  unfolding runSession_P_def finish_P_frame
  by (rule statsLe_trans [OF announce_P_statsLe scanLoop_P_statsLe])

lemma tick_T_nodes:
  "list_all (\<lambda>n. parent n = None \<and> status n \<noteq> pending) (crawlNodes w) \<Longrightarrow>
   list_all (\<lambda>n. parent n = None \<and> status n \<noteq> pending) (crawlNodes (worldOf (tick_T env u i w)))"
  by (simp add: tick_T_eq mergeBatch_T_crawlNodes tickNode_def)

lemma runSession_T_nodes:
  "list_all (\<lambda>n. parent n = None \<and> status n \<noteq> pending) (crawlNodes (runSession_T env c u w))"
  unfolding runSession_T_def finish_T_frame
  by (rule scanLoop_T_invariant [where I = "\<lambda>w. list_all (\<lambda>n. parent n = None \<and> status n \<noteq> pending) (crawlNodes w)"])
     (simp_all add: tick_T_nodes rootNode_def)

lemma runSession_T_requests:
  "apiCalls (runSession_T env c u w) = apiCalls w + (if c then 5 else 0)"
  by (cases c) (simp_all add: runSession_T_def scanLoop_T_stale scanLoop_T_requests)

lemma runSession_P_requests:
  "apiCalls (runSession_P env c u w) = apiCalls w + (if c then 4 else 1)"
  by (cases c) (simp_all add: runSession_P_def scanLoop_P_stale scanLoop_P_requests)

lemma runSession_T_stale_nodes: "crawlNodes (runSession_T env False u w) = [rootNode]"
  by (simp add: runSession_T_def scanLoop_T_stale)

subsection \<open>The abort handlers\<close>

lemma abort_stats:
  "stats (abortScan_T w) = stats w"
  "stats (stopScan_P env p) = stats p"
  by (simp_all add: abortScan_T_def stopScan_P_def)

subsection \<open>The window of the first variant's log\<close>

lemma window_arith [simp]: "(n::nat) - (n - 49) = min n 49"
  by arith

lemma runCallback_T_window:
  "length (logs w) \<le> 50 \<Longrightarrow> length (logs (runCallback (addLog_T env) w c)) \<le> 50"
  by (simp add: runCallback_def logTimer_def Let_def incPagesCrawled_def incFormsDetected_def
      durationTick_def split: prod.split Callback.split)

lemma sleep_T_window:
  "length (logs w) \<le> 50 \<Longrightarrow> length (logs (sleep (addLog_T env) ms w)) \<le> 50"
proof -
  assume a: "length (logs w) \<le> 50"
  have "length (logs (foldl (runCallback (addLog_T env)) w cs)) \<le> 50" for cs
    by (rule foldl_invariant [where I = "\<lambda>w. length (logs w) \<le> 50"])
       (simp_all add: a runCallback_T_window)
  then show ?thesis by (simp add: sleep_def Let_def)
qed

lemma vulnUpdater_T_window:
  "length (logs w) \<le> 50 \<Longrightarrow> length (logs (vulnUpdater_T env w v)) \<le> 50"
  by (cases "vtype v \<in> set (map vtype (vulnerabilities w))")
     (simp_all add: vulnUpdater_T_dup vulnUpdater_T_new)

lemma mergeBatch_T_window:
  "length (logs w) \<le> 50 \<Longrightarrow> length (logs (mergeBatch_T env i d w)) \<le> 50"
proof -
  assume a: "length (logs w) \<le> 50"
  let ?w5 = "registerLogTimers 150 (sim_logs d)
               ((snd (random_call env (snd (random_call env (snd (random_call env w))))))
                  \<lparr>crawlNodes := crawlNodes w @ [tickNode env i d w]\<rparr>)"
  have eq: "mergeBatch_T env i d w =
      sleep (addLog_T env) 3000
        (if length (sim_vulnerabilities d) > 0
         then foldl (vulnUpdater_T env) ?w5 (sim_vulnerabilities d) else ?w5)"
    by (simp add: mergeBatch_T_def Let_def case_prod_beta tickNode_def random_call_def)
  have b: "length (logs ?w5) \<le> 50"
    using a by simp
  have "length (logs (foldl (vulnUpdater_T env) ?w5 (sim_vulnerabilities d))) \<le> 50"
    by (rule foldl_invariant [where I = "\<lambda>w. length (logs w) \<le> 50"])
       (simp_all add: b vulnUpdater_T_window del: registerLogTimers_frame)
  then show ?thesis
    unfolding eq using b by (auto intro: sleep_T_window)
qed

lemma tick_T_window: "length (logs (worldOf (tick_T env u i w))) \<le> 50"
  unfolding tick_T_eq worldOf.simps
  by (rule mergeBatch_T_window, rule sleep_T_window) simp

lemma runSession_T_window: "length (logs (runSession_T env c u w)) \<le> 50"
  by (cases "scanLoop_T env c u 0 (announce_T env u w)")
     (simp_all add: runSession_T_def finish_T_def)

lemma startScan_T_window:
  "length (logs w) \<le> 50 \<Longrightarrow> length (logs (startScan_T env w)) \<le> 50"
  by (simp add: startScan_T_def runSession_T_window)

lemma runSession_T_stale_vulnerabilities:
  "vulnerabilities (runSession_T env False u w) = vulnerabilities w"
  by (simp add: runSession_T_def scanLoop_T_stale)

lemma tick_T_root:
  "crawlNodes w \<noteq> [] \<and> hd (crawlNodes w) = rootNode \<Longrightarrow>
   crawlNodes (worldOf (tick_T env u i w)) \<noteq> [] \<and> hd (crawlNodes (worldOf (tick_T env u i w))) = rootNode"
  by (simp add: tick_T_eq mergeBatch_T_crawlNodes)

lemma runSession_T_root: "hd (crawlNodes (runSession_T env c u w)) = rootNode"
proof -
  have "crawlNodes (worldOf (scanLoop_T env c u 0 (announce_T env u w))) \<noteq> [] \<and>
      hd (crawlNodes (worldOf (scanLoop_T env c u 0 (announce_T env u w)))) = rootNode"
    by (rule scanLoop_T_invariant [where I = "\<lambda>w. crawlNodes w \<noteq> [] \<and> hd (crawlNodes w) = rootNode"])
       (simp_all add: tick_T_root)
  then show ?thesis
    by (simp add: runSession_T_def)
qed


section \<open>The claims\<close>



text \<open>
  Claim C2, as amended. Every call to \<open>addLog\<close> puts exactly one new entry at the end and
  keeps the entries it retains in their order. In the first variant the retained entries
  are the last 49 of the previous list, so that the list never holds more than 50 entries,
  after one call and at the end of \<open>startScan\<close>; in the second variant every previous
  entry is retained and the list grows by one with each call.
\<close>

theorem C2_addLog_appends:
  "logs (addLog_T env lv msg md w) = drop (length (logs w) - 49) (logs w) @ [newLog env lv msg md w] \<and>
   length (logs (addLog_T env lv msg md w)) = min (length (logs w)) 49 + 1 \<and>
   length (logs (addLog_T env lv msg md w)) \<le> 50 \<and>
   (length (logs s) \<le> 50 \<longrightarrow> length (logs (startScan_T env s)) \<le> 50) \<and>
   logs (addLog_P env lv msg md p) = logs p @ [newLog env lv msg md p] \<and>
   length (logs (addLog_P env lv msg md p)) = length (logs p) + 1"
  using startScan_T_window [of s env] by simp

theorem C2_addLog_appends_witness:
  "length (logs idleWorld) \<le> 50 \<and> length (logs (startScan_T exampleEnv idleWorld)) \<le> 50"
proof -
  have h: "length (logs idleWorld) \<le> 50"
    by (simp add: idleWorld_def)
  show ?thesis
    using h C2_addLog_appends [of exampleEnv _ _ _ _ idleWorld] by blast
qed

text \<open>
  The claim as stated fails in the second variant: with 50 entries on the list, one more
  call to its \<open>addLog\<close> gives 51.
\<close>

theorem C2_log_cap_counterexample:
  "length (logs fullLogWorld2) = 50 \<and>
   \<not> length (logs (addLog_P exampleEnv INFO ''GET /'' CRAWLER fullLogWorld2)) \<le> 50"
  by (simp add: fullLogWorld2_def idleWorld2_def)

text \<open>
  Claim C3. When the request to the generative API is rejected, \<open>analyzeTargetForSimulation\<close>
  resolves to the fallback result: seven log records, which for two target URLs differ only
  in the fourth record's message (\<open>Simulating scan for\<close> followed by the URL), and no
  findings. Whatever the request does, the promise resolves: it is never rejected.
\<close>

theorem C3_fallback_on_api_failure:
  "(generateContent env k u = Rejects \<longrightarrow>
      fst (analyzeTargetForSimulation env u k) = Inr (fallbackSim u)) \<and>
   (\<exists>d. fst (analyzeTargetForSimulation env u k) = Inr d) \<and>
   length (sim_logs (fallbackSim u)) = 7 \<and>
   sim_vulnerabilities (fallbackSim u) = [] \<and>
   sim_logs (fallbackSim u) =
     (sim_logs (fallbackSim u'))[3 := \<lparr>level = WARN, message = ''Simulating scan for '' @ u, module = CORE\<rparr>]"
proof -
  have "generateContent env k u = Rejects \<longrightarrow>
      fst (analyzeTargetForSimulation env u k) = Inr (fallbackSim u)"
    by (simp add: analyzeTargetForSimulation_def tryRequest_def)
  moreover have "\<exists>d. fst (analyzeTargetForSimulation env u k) = Inr d"
    by (simp add: analyze_eq)
  moreover have "length (sim_logs (fallbackSim u)) = 7" "sim_vulnerabilities (fallbackSim u) = []"
    by (simp_all add: fallbackSim_def fallbackLogs_def)
  moreover have "sim_logs (fallbackSim u) =
     (sim_logs (fallbackSim u'))[3 := \<lparr>level = WARN, message = ''Simulating scan for '' @ u, module = CORE\<rparr>]"
    by (simp add: fallbackSim_def fallbackLogs_def)
  ultimately show ?thesis by blast
qed

theorem C3_fallback_on_api_failure_witness:
  "generateContent exampleEnv 1 ''http://example.com'' = Rejects \<and>
   fst (analyzeTargetForSimulation exampleEnv ''http://example.com'' 1) = Inr (fallbackSim ''http://example.com'')"
proof -
  have h: "generateContent exampleEnv 1 ''http://example.com'' = Rejects"
    by (simp add: exampleEnv_def exampleResponse_def)
  show ?thesis
    using h C3_fallback_on_api_failure [of exampleEnv 1 "''http://example.com''"] by blast
qed

text \<open>
  Claim C4. Once \<open>startScan\<close> is past its two guards, the session's data start from nothing:
  the run is the rest of the function applied to the reset state, in which the log list, the
  finding list and the crawl-node list are empty and the four counters are zero; all
  iterations lie in that rest. Hence whatever the lists and counters held before the call
  has no influence on the outcome. The second variant has no crawl-node list and resets the
  other three.
\<close>

theorem C4_state_reset_at_session_start:
  "(targetUrl w \<noteq> [] \<and> API_KEY_AVAILABLE env \<longrightarrow>
      startScan_T env w =
        runSession_T env (isScanning w) (targetUrl w) (resetSession_T (setIsScanning True w)) \<and>
      startScan_T env (w\<lparr>logs := ls, vulnerabilities := vs, crawlNodes := ns, stats := st\<rparr>) =
        startScan_T env w) \<and>
   logs (resetSession_T w) = [] \<and> vulnerabilities (resetSession_T w) = [] \<and>
   crawlNodes (resetSession_T w) = [] \<and>
   stats (resetSession_T w) =
     \<lparr>pagesCrawled = 0, formsDetected = 0, vulnsFound = 0, durationSeconds = 0\<rparr> \<and>
   (targetUrl p \<noteq> [] \<and> API_KEY_AVAILABLE env \<longrightarrow>
      startScan_P env p =
        runSession_P env (isScanning p) (targetUrl p) (resetSession_P (setIsScanning True p)) \<and>
      startScan_P env (p\<lparr>logs := ls, vulnerabilities := vs, stats := st\<rparr>) = startScan_P env p) \<and>
   logs (resetSession_P p) = [] \<and> vulnerabilities (resetSession_P p) = [] \<and>
   stats (resetSession_P p) =
     \<lparr>pagesCrawled = 0, formsDetected = 0, vulnsFound = 0, durationSeconds = 0\<rparr>"
proof -
  have t: "resetSession_T (setIsScanning True (w\<lparr>logs := ls, vulnerabilities := vs, crawlNodes := ns, stats := st\<rparr>)) =
      resetSession_T (setIsScanning True w)"
    by (simp add: resetSession_T_def setIsScanning_def)
  have p: "resetSession_P (setIsScanning True (p\<lparr>logs := ls, vulnerabilities := vs, stats := st\<rparr>)) =
      resetSession_P (setIsScanning True p)"
    by (simp add: resetSession_P_def setIsScanning_def)
  show ?thesis
    using t p by (simp add: startScan_T_def startScan_P_def zeroStats_def)
qed

theorem C4_state_reset_at_session_start_witness:
  "targetUrl foundWorld \<noteq> [] \<and> API_KEY_AVAILABLE exampleEnv \<and>
   startScan_T exampleEnv foundWorld =
     runSession_T exampleEnv (isScanning foundWorld) (targetUrl foundWorld)
       (resetSession_T (setIsScanning True foundWorld)) \<and>
   startScan_T exampleEnv
       (foundWorld\<lparr>logs := [exampleEntry], vulnerabilities := [], crawlNodes := [rootNode], stats := zeroStats\<rparr>) =
     startScan_T exampleEnv foundWorld \<and>
   targetUrl foundWorld2 \<noteq> [] \<and>
   startScan_P exampleEnv foundWorld2 =
     runSession_P exampleEnv (isScanning foundWorld2) (targetUrl foundWorld2)
       (resetSession_P (setIsScanning True foundWorld2)) \<and>
   startScan_P exampleEnv (foundWorld2\<lparr>logs := [exampleEntry], vulnerabilities := [], stats := zeroStats\<rparr>) =
     startScan_P exampleEnv foundWorld2"
proof -
  have h1: "targetUrl foundWorld \<noteq> []"
    by (simp add: foundWorld_def idleWorld_def)
  have h2: "targetUrl foundWorld2 \<noteq> []"
    by (simp add: foundWorld2_def idleWorld2_def)
  have h3: "API_KEY_AVAILABLE exampleEnv"
    by (simp add: exampleEnv_def)
  note a = C4_state_reset_at_session_start [where w = foundWorld and env = exampleEnv
      and ls = "[exampleEntry]" and vs = "[]" and ns = "[rootNode]" and st = zeroStats and p = foundWorld2]
  show ?thesis
    using h1 h2 h3 a by blast
qed

text \<open>
  Claim C5 (a run performs five, respectively four, ticks with one request each), evaluated
  on the code. \<open>startScan\<close> tests the \<open>isScanning\<close> it closed over, which is false whenever
  the interface can call it, and \<open>setIsScanning(true)\<close> does not change that value. From the idle state the first variant leaves its loop before the first
  iteration: it issues no request and adds no node beyond the root. The second variant,
  which skips the test in the first iteration, runs one iteration and issues one request.
  With the flag captured as true the loops run their five and four iterations with one
  request each.
\<close>

theorem C5_stale_flag_ends_loop_early:
  "\<not> isScanning idleWorld \<and> targetUrl idleWorld \<noteq> [] \<and> API_KEY_AVAILABLE exampleEnv \<and>
   apiCalls idleWorld = 0 \<and>
   apiCalls (startScan_T exampleEnv idleWorld) = 0 \<and>
   crawlNodes (startScan_T exampleEnv idleWorld) = [rootNode] \<and>
   vulnerabilities (startScan_T exampleEnv idleWorld) = [] \<and>
   \<not> isScanning idleWorld2 \<and> targetUrl idleWorld2 \<noteq> [] \<and> apiCalls idleWorld2 = 0 \<and>
   apiCalls (startScan_P exampleEnv idleWorld2) = 1 \<and>
   apiCalls (startScan_T exampleEnv (idleWorld\<lparr>isScanning := True\<rparr>)) = 5 \<and>
   apiCalls (startScan_P exampleEnv (idleWorld2\<lparr>isScanning := True\<rparr>)) = 4"
proof -
  have i1: "\<not> isScanning idleWorld" "targetUrl idleWorld \<noteq> []" "apiCalls idleWorld = 0"
    by (simp_all add: idleWorld_def)
  have i2: "\<not> isScanning idleWorld2" "targetUrl idleWorld2 \<noteq> []" "apiCalls idleWorld2 = 0"
    by (simp_all add: idleWorld2_def)
  have k: "API_KEY_AVAILABLE exampleEnv"
    by (simp add: exampleEnv_def)
  have t: "apiCalls (startScan_T exampleEnv idleWorld) = 0"
    "crawlNodes (startScan_T exampleEnv idleWorld) = [rootNode]"
    "vulnerabilities (startScan_T exampleEnv idleWorld) = []"
    using i1 k
    by (simp_all add: startScan_T_session runSession_T_requests runSession_T_stale_nodes
        runSession_T_stale_vulnerabilities)
  have p: "apiCalls (startScan_P exampleEnv idleWorld2) = 1"
    using i2 k by (simp add: startScan_P_session runSession_P_requests)
  have t5: "apiCalls (startScan_T exampleEnv (idleWorld\<lparr>isScanning := True\<rparr>)) = 5"
    using i1 k by (simp add: startScan_T_session runSession_T_requests)
  have p4: "apiCalls (startScan_P exampleEnv (idleWorld2\<lparr>isScanning := True\<rparr>)) = 4"
    using i2 k by (simp add: startScan_P_session runSession_P_requests)
  show ?thesis
    using i1 i2 k t p t5 p4 by simp
qed

text \<open>
  Claim C6. After the reset the counters only grow. The interval callback adds one to
  \<open>durationSeconds\<close>; the callback of a log record adds one to \<open>pagesCrawled\<close> for a CRAWLER
  record and one to \<open>formsDetected\<close> for a FORM_BOT record; merging a finding adds one to
  \<open>vulnsFound\<close> when the finding is accepted; \<open>addLog\<close> and the abort handlers change no
  counter. Each of these changes nothing else in the counters. Hence no counter is lower
  after a wait, after an iteration, or at the end of the session than it was before. This
  holds in both variants.
\<close>

theorem C6_counters_only_increase:
  "stats (durationTick w) = (stats w)\<lparr>durationSeconds := durationSeconds (stats w) + 1\<rparr> \<and>
   stats (logTimer (addLog_T env) l w) =
     (stats w)\<lparr>pagesCrawled := pagesCrawled (stats w) + (if module l = CRAWLER then 1 else 0),
               formsDetected := formsDetected (stats w) + (if module l = FORM_BOT then 1 else 0)\<rparr> \<and>
   stats (vulnUpdater_T env w v) =
     (stats w)\<lparr>vulnsFound := vulnsFound (stats w) +
        (if vtype v \<in> set (map vtype (vulnerabilities w)) then 0 else 1)\<rparr> \<and>
   stats (addLog_T env lv msg md w) = stats w \<and>
   stats (abortScan_T w) = stats w \<and>
   statsLe (stats w) (stats (sleep (addLog_T env) ms w)) \<and>
   statsLe (stats w) (stats (worldOf (tick_T env u i w))) \<and>
   statsLe (stats w) (stats (runSession_T env c u w)) \<and>
   stats (durationTick p) = (stats p)\<lparr>durationSeconds := durationSeconds (stats p) + 1\<rparr> \<and>
   stats (logTimer (addLog_P env) l p) =
     (stats p)\<lparr>pagesCrawled := pagesCrawled (stats p) + (if module l = CRAWLER then 1 else 0),
               formsDetected := formsDetected (stats p) + (if module l = FORM_BOT then 1 else 0)\<rparr> \<and>
   stats (vulnUpdater_P env p v) =
     (stats p)\<lparr>vulnsFound := vulnsFound (stats p) +
        (if vtype v \<in> set (map vtype (vulnerabilities p)) then 0 else 1)\<rparr> \<and>
   stats (addLog_P env lv msg md p) = stats p \<and>
   stats (stopScan_P env p) = stats p \<and>
   statsLe (stats p) (stats (sleep (addLog_P env) ms p)) \<and>
   statsLe (stats p) (stats (worldOf (tick_P env u p))) \<and>
   statsLe (stats p) (stats (runSession_P env c u p))"
proof -
  have t: "stats (vulnUpdater_T env w v) =
     (stats w)\<lparr>vulnsFound := vulnsFound (stats w) +
        (if vtype v \<in> set (map vtype (vulnerabilities w)) then 0 else 1)\<rparr>"
    by (cases "vtype v \<in> set (map vtype (vulnerabilities w))")
       (simp_all add: vulnUpdater_T_dup vulnUpdater_T_new)
  have p: "stats (vulnUpdater_P env p v) =
     (stats p)\<lparr>vulnsFound := vulnsFound (stats p) +
        (if vtype v \<in> set (map vtype (vulnerabilities p)) then 0 else 1)\<rparr>"
    by (cases "vtype v \<in> set (map vtype (vulnerabilities p))")
       (simp_all add: vulnUpdater_P_dup vulnUpdater_P_new)
  show ?thesis
    using t p logTimer_T_stats [of env l w] logTimer_P_stats [of env l p]
      sleep_T_statsLe [of w env ms] sleep_P_statsLe [of p env ms]
      tick_T_statsLe [of w env u i] tick_P_statsLe [of p env u]
      runSession_T_statsLe [of w env c u] runSession_P_statsLe [of p env c u]
      durationTick_frame(7) [of w] durationTick_frame(7) [of p]
      addLog_T_frame(5) [of env lv msg md w] addLog_P_frame(5) [of env lv msg md p]
      abort_stats(1) [of w] abort_stats(2) [of env p]
    by blast
qed

text \<open>
  Claim C7. The crawl nodes form a flat list. An iteration appends exactly one node; its
  parent is unset, its depth is the iteration number plus one, and its status is \<open>vuln\<close>
  when the batch the iteration received holds at least one finding and \<open>visited\<close>
  otherwise. The root node has no parent and status \<open>visited\<close>. At the end of \<open>startScan\<close>
  every node on the list has its parent unset and a status other than \<open>pending\<close>.
\<close>

theorem C7_crawl_nodes_flat:
  "(fst (analyzeTargetForSimulation env u (apiCalls w)) = Inr d \<longrightarrow>
      (\<exists>n. crawlNodes (worldOf (tick_T env u i w)) = crawlNodes w @ [n] \<and> parent n = None \<and>
           depth n = i + 1 \<and> status n = (if sim_vulnerabilities d \<noteq> [] then vuln else visited))) \<and>
   parent rootNode = None \<and> status rootNode = visited \<and>
   (targetUrl w \<noteq> [] \<and> API_KEY_AVAILABLE env \<longrightarrow>
      list_all (\<lambda>n. parent n = None \<and> status n \<noteq> pending) (crawlNodes (startScan_T env w)) \<and>
      hd (crawlNodes (startScan_T env w)) = rootNode)"
proof -
  have a: "fst (analyzeTargetForSimulation env u (apiCalls w)) = Inr d \<longrightarrow>
      (\<exists>n. crawlNodes (worldOf (tick_T env u i w)) = crawlNodes w @ [n] \<and> parent n = None \<and>
           depth n = i + 1 \<and> status n = (if sim_vulnerabilities d \<noteq> [] then vuln else visited))"
    using tick_T_crawlNodes [of env u w d i] by blast
  have b: "parent rootNode = None" "status rootNode = visited"
    by (simp_all add: rootNode_def)
  have c: "targetUrl w \<noteq> [] \<and> API_KEY_AVAILABLE env \<longrightarrow>
      list_all (\<lambda>n. parent n = None \<and> status n \<noteq> pending) (crawlNodes (startScan_T env w))"
    by (simp add: startScan_T_session runSession_T_nodes)
  have d: "targetUrl w \<noteq> [] \<and> API_KEY_AVAILABLE env \<longrightarrow> hd (crawlNodes (startScan_T env w)) = rootNode"
    by (simp add: startScan_T_session runSession_T_root)
  show ?thesis
    using a b c d by blast
qed

theorem C7_crawl_nodes_flat_witness:
  "fst (analyzeTargetForSimulation exampleEnv ''http://example.com'' (apiCalls idleWorld)) = Inr exampleBatch \<and>
   (\<exists>n. crawlNodes (worldOf (tick_T exampleEnv ''http://example.com'' 0 idleWorld)) = crawlNodes idleWorld @ [n] \<and>
        parent n = None \<and> depth n = 1 \<and> status n = vuln) \<and>
   fst (analyzeTargetForSimulation exampleEnv ''http://example.com'' (apiCalls (idleWorld\<lparr>apiCalls := 1\<rparr>))) =
     Inr (fallbackSim ''http://example.com'') \<and>
   (\<exists>n. crawlNodes (worldOf (tick_T exampleEnv ''http://example.com'' 1 (idleWorld\<lparr>apiCalls := 1\<rparr>))) =
          crawlNodes (idleWorld\<lparr>apiCalls := 1\<rparr>) @ [n] \<and>
        parent n = None \<and> depth n = 2 \<and> status n = visited) \<and>
   targetUrl idleWorld \<noteq> [] \<and> API_KEY_AVAILABLE exampleEnv \<and>
   list_all (\<lambda>n. parent n = None \<and> status n \<noteq> pending) (crawlNodes (startScan_T exampleEnv idleWorld)) \<and>
   hd (crawlNodes (startScan_T exampleEnv idleWorld)) = rootNode"
proof -
  have h1: "fst (analyzeTargetForSimulation exampleEnv ''http://example.com'' (apiCalls idleWorld)) = Inr exampleBatch"
    by (simp add: analyzeTargetForSimulation_def tryRequest_def exampleEnv_def exampleResponse_def
        exampleParse_def cleanText_def trim_def isWhiteSpace_def idleWorld_def)
  have h2: "fst (analyzeTargetForSimulation exampleEnv ''http://example.com'' (apiCalls (idleWorld\<lparr>apiCalls := 1\<rparr>))) =
     Inr (fallbackSim ''http://example.com'')"
    by (simp add: analyzeTargetForSimulation_def tryRequest_def exampleEnv_def exampleResponse_def)
  have h3: "targetUrl idleWorld \<noteq> []" "API_KEY_AVAILABLE exampleEnv"
    by (simp_all add: idleWorld_def exampleEnv_def)
  have v: "sim_vulnerabilities exampleBatch \<noteq> []" "sim_vulnerabilities (fallbackSim ''http://example.com'') = []"
    by (simp_all add: exampleBatch_def fallbackSim_def)
  note a = C7_crawl_nodes_flat [where env = exampleEnv and u = "''http://example.com''" and w = idleWorld
      and d = exampleBatch and i = 0]
  note b = C7_crawl_nodes_flat [where env = exampleEnv and u = "''http://example.com''"
      and w = "idleWorld\<lparr>apiCalls := 1\<rparr>" and d = "fallbackSim ''http://example.com''" and i = 1]
  have c1: "\<exists>n. crawlNodes (worldOf (tick_T exampleEnv ''http://example.com'' 0 idleWorld)) = crawlNodes idleWorld @ [n] \<and>
        parent n = None \<and> depth n = 1 \<and> status n = vuln"
    using h1 v a by simp
  have c2: "\<exists>n. crawlNodes (worldOf (tick_T exampleEnv ''http://example.com'' 1 (idleWorld\<lparr>apiCalls := 1\<rparr>))) =
          crawlNodes (idleWorld\<lparr>apiCalls := 1\<rparr>) @ [n] \<and>
        parent n = None \<and> depth n = 2 \<and> status n = visited"
    using h2 v b by (simp add: numeral_2_eq_2)
  have c3: "list_all (\<lambda>n. parent n = None \<and> status n \<noteq> pending) (crawlNodes (startScan_T exampleEnv idleWorld))"
    "hd (crawlNodes (startScan_T exampleEnv idleWorld)) = rootNode"
    using h3 a by blast+
  show ?thesis
    using h1 h2 h3 c1 c2 c3 by blast
qed

text \<open>
  Claim C8. One invocation of \<open>analyzeTargetForSimulation\<close> issues exactly one request: the
  number of requests grows by one, and what the promise settles to is a function of that
  request's outcome alone, so that no later request (a retry) plays a part. A response
  without text, or with the empty text, gives empty logs and empty findings; a response
  whose text parses gives the parsed value as it is.
\<close>

theorem C8_single_request:
  "snd (analyzeTargetForSimulation env u k) = k + 1 \<and>
   (generateContent env k u = Resolves None \<or> generateContent env k u = Resolves (Some []) \<longrightarrow>
      fst (analyzeTargetForSimulation env u k) = Inr \<lparr>sim_logs = [], sim_vulnerabilities = []\<rparr>) \<and>
   (generateContent env k u = Resolves (Some t) \<and> t \<noteq> [] \<and> JSON_parse env (cleanText t) = Some d \<longrightarrow>
      fst (analyzeTargetForSimulation env u k) = Inr d) \<and>
   (generateContent env' k u = generateContent env k u \<and> JSON_parse env' = JSON_parse env \<longrightarrow>
      analyzeTargetForSimulation env' u k = analyzeTargetForSimulation env u k)"
proof -
  have "snd (analyzeTargetForSimulation env u k) = k + 1"
    by (simp add: analyze_eq)
  moreover have "generateContent env k u = Resolves None \<or> generateContent env k u = Resolves (Some []) \<longrightarrow>
      fst (analyzeTargetForSimulation env u k) = Inr \<lparr>sim_logs = [], sim_vulnerabilities = []\<rparr>"
    by (auto simp: analyzeTargetForSimulation_def tryRequest_def emptySim_def)
  moreover have "generateContent env k u = Resolves (Some t) \<and> t \<noteq> [] \<and> JSON_parse env (cleanText t) = Some d \<longrightarrow>
      fst (analyzeTargetForSimulation env u k) = Inr d"
    by (auto simp: analyzeTargetForSimulation_def tryRequest_def)
  moreover have "generateContent env' k u = generateContent env k u \<and> JSON_parse env' = JSON_parse env \<longrightarrow>
      analyzeTargetForSimulation env' u k = analyzeTargetForSimulation env u k"
    by (simp add: analyzeTargetForSimulation_def tryRequest_def split: ApiOutcome.split option.split)
  ultimately show ?thesis by blast
qed

theorem C8_single_request_witness:
  "generateContent exampleEnv 2 ''http://example.com'' = Resolves None \<and>
   fst (analyzeTargetForSimulation exampleEnv ''http://example.com'' 2) = Inr \<lparr>sim_logs = [], sim_vulnerabilities = []\<rparr> \<and>
   generateContent exampleEnv 0 ''http://example.com'' = Resolves (Some ''{}'') \<and>
   ''{}'' \<noteq> [] \<and> JSON_parse exampleEnv (cleanText ''{}'') = Some exampleBatch \<and>
   fst (analyzeTargetForSimulation exampleEnv ''http://example.com'' 0) = Inr exampleBatch \<and>
   snd (analyzeTargetForSimulation exampleEnv ''http://example.com'' 0) = 1 \<and>
   generateContent (exampleEnv\<lparr>apiLatency := exampleLatency\<rparr>) 0 ''http://example.com'' =
     generateContent exampleEnv 0 ''http://example.com'' \<and>
   JSON_parse (exampleEnv\<lparr>apiLatency := exampleLatency\<rparr>) = JSON_parse exampleEnv \<and>
   analyzeTargetForSimulation (exampleEnv\<lparr>apiLatency := exampleLatency\<rparr>) ''http://example.com'' 0 =
     analyzeTargetForSimulation exampleEnv ''http://example.com'' 0"
proof -
  have h1: "generateContent exampleEnv 2 ''http://example.com'' = Resolves None"
    by (simp add: exampleEnv_def exampleResponse_def)
  have h2: "generateContent exampleEnv 0 ''http://example.com'' = Resolves (Some ''{}'')"
    by (simp add: exampleEnv_def exampleResponse_def)
  have h3: "''{}'' \<noteq> []" by simp
  have h4: "JSON_parse exampleEnv (cleanText ''{}'') = Some exampleBatch"
    by (simp add: exampleEnv_def exampleParse_def cleanText_def trim_def isWhiteSpace_def)
  have h5: "generateContent (exampleEnv\<lparr>apiLatency := exampleLatency\<rparr>) 0 ''http://example.com'' =
     generateContent exampleEnv 0 ''http://example.com''" by simp
  have h6: "JSON_parse (exampleEnv\<lparr>apiLatency := exampleLatency\<rparr>) = JSON_parse exampleEnv" by simp
  note a = C8_single_request [of exampleEnv "''http://example.com''" 2 "[]" exampleBatch exampleEnv]
  note b = C8_single_request [of exampleEnv "''http://example.com''" 0 "''{}''" exampleBatch
      "exampleEnv\<lparr>apiLatency := exampleLatency\<rparr>"]
  have c1: "fst (analyzeTargetForSimulation exampleEnv ''http://example.com'' 2) =
      Inr \<lparr>sim_logs = [], sim_vulnerabilities = []\<rparr>"
    using h1 a by blast
  have c2: "fst (analyzeTargetForSimulation exampleEnv ''http://example.com'' 0) = Inr exampleBatch"
    using h2 h3 h4 b by blast
  have c3: "snd (analyzeTargetForSimulation exampleEnv ''http://example.com'' 0) = 1"
    using b by simp
  have c4: "analyzeTargetForSimulation (exampleEnv\<lparr>apiLatency := exampleLatency\<rparr>) ''http://example.com'' 0 =
     analyzeTargetForSimulation exampleEnv ''http://example.com'' 0"
    using h5 h6 b by blast
  show ?thesis
    using h1 h2 h3 h4 h5 h6 c1 c2 c3 c4 by blast
qed

text \<open>
  Claim C9. The counter \<open>vulnsFound\<close> equals the length of the finding list throughout a
  session. The reset sets both to zero. Merging a finding adds one entry and one to the
  counter when its type is new, and changes neither when its type is on the list. Waiting
  (with the timer callbacks that run meanwhile) changes neither. So the equation is kept
  by every iteration, and it holds when \<open>startScan\<close> ends. This holds in both variants.
\<close>

theorem C9_vulnsFound_is_list_length:
  "vulnsFound (stats (resetSession_T w)) = 0 \<and> vulnerabilities (resetSession_T w) = [] \<and>
   length (vulnerabilities (vulnUpdater_T env w v)) =
     length (vulnerabilities w) + (if vtype v \<in> set (map vtype (vulnerabilities w)) then 0 else 1) \<and>
   vulnsFound (stats (vulnUpdater_T env w v)) =
     vulnsFound (stats w) + (if vtype v \<in> set (map vtype (vulnerabilities w)) then 0 else 1) \<and>
   vulnsFound (stats (sleep (addLog_T env) ms w)) = vulnsFound (stats w) \<and>
   vulnerabilities (sleep (addLog_T env) ms w) = vulnerabilities w \<and>
   (vulnsFound (stats w) = length (vulnerabilities w) \<longrightarrow>
      vulnsFound (stats (worldOf (tick_T env u i w))) =
        length (vulnerabilities (worldOf (tick_T env u i w)))) \<and>
   (targetUrl w \<noteq> [] \<and> API_KEY_AVAILABLE env \<longrightarrow>
      vulnsFound (stats (startScan_T env w)) = length (vulnerabilities (startScan_T env w))) \<and>
   vulnsFound (stats (resetSession_P p)) = 0 \<and> vulnerabilities (resetSession_P p) = [] \<and>
   length (vulnerabilities (vulnUpdater_P env p v)) =
     length (vulnerabilities p) + (if vtype v \<in> set (map vtype (vulnerabilities p)) then 0 else 1) \<and>
   vulnsFound (stats (vulnUpdater_P env p v)) =
     vulnsFound (stats p) + (if vtype v \<in> set (map vtype (vulnerabilities p)) then 0 else 1) \<and>
   vulnsFound (stats (sleep (addLog_P env) ms p)) = vulnsFound (stats p) \<and>
   vulnerabilities (sleep (addLog_P env) ms p) = vulnerabilities p \<and>
   (vulnsFound (stats p) = length (vulnerabilities p) \<longrightarrow>
      vulnsFound (stats (worldOf (tick_P env u p))) =
        length (vulnerabilities (worldOf (tick_P env u p)))) \<and>
   (targetUrl p \<noteq> [] \<and> API_KEY_AVAILABLE env \<longrightarrow>
      vulnsFound (stats (startScan_P env p)) = length (vulnerabilities (startScan_P env p)))"
proof -
  have t1: "length (vulnerabilities (vulnUpdater_T env w v)) =
     length (vulnerabilities w) + (if vtype v \<in> set (map vtype (vulnerabilities w)) then 0 else 1)"
    and t2: "vulnsFound (stats (vulnUpdater_T env w v)) =
     vulnsFound (stats w) + (if vtype v \<in> set (map vtype (vulnerabilities w)) then 0 else 1)"
    by (cases "vtype v \<in> set (map vtype (vulnerabilities w))";
        simp add: vulnUpdater_T_dup vulnUpdater_T_new)+
  have p1: "length (vulnerabilities (vulnUpdater_P env p v)) =
     length (vulnerabilities p) + (if vtype v \<in> set (map vtype (vulnerabilities p)) then 0 else 1)"
    and p2: "vulnsFound (stats (vulnUpdater_P env p v)) =
     vulnsFound (stats p) + (if vtype v \<in> set (map vtype (vulnerabilities p)) then 0 else 1)"
    by (cases "vtype v \<in> set (map vtype (vulnerabilities p))";
        simp add: vulnUpdater_P_dup vulnUpdater_P_new)+
  have t3: "targetUrl w \<noteq> [] \<and> API_KEY_AVAILABLE env \<longrightarrow>
      vulnsFound (stats (startScan_T env w)) = length (vulnerabilities (startScan_T env w))"
    by (simp add: startScan_T_session runSession_T_count)
  have p3: "targetUrl p \<noteq> [] \<and> API_KEY_AVAILABLE env \<longrightarrow>
      vulnsFound (stats (startScan_P env p)) = length (vulnerabilities (startScan_P env p))"
    by (simp add: startScan_P_session runSession_P_count)
  have t0: "vulnsFound (stats (resetSession_T w)) = 0" "vulnerabilities (resetSession_T w) = []"
    and p0: "vulnsFound (stats (resetSession_P p)) = 0" "vulnerabilities (resetSession_P p) = []"
    by simp_all
  show ?thesis
    using t0 t1 t2 t3 p0 p1 p2 p3 tick_T_count [of w env u i] tick_P_count [of p env u]
      sleep_T_vulnsFound [of env ms w] sleep_T_frame(1) [of env ms w]
      sleep_P_vulnsFound [of env ms p] sleep_P_frame(1) [of env ms p]
    by blast
qed

theorem C9_vulnsFound_is_list_length_witness:
  "vulnsFound (stats foundWorld) = length (vulnerabilities foundWorld) \<and>
   vulnsFound (stats (worldOf (tick_T exampleEnv ''http://example.com'' 0 foundWorld))) =
     length (vulnerabilities (worldOf (tick_T exampleEnv ''http://example.com'' 0 foundWorld))) \<and>
   targetUrl foundWorld \<noteq> [] \<and> API_KEY_AVAILABLE exampleEnv \<and>
   vulnsFound (stats (startScan_T exampleEnv foundWorld)) =
     length (vulnerabilities (startScan_T exampleEnv foundWorld)) \<and>
   vulnsFound (stats foundWorld2) = length (vulnerabilities foundWorld2) \<and>
   vulnsFound (stats (worldOf (tick_P exampleEnv ''http://example.com'' foundWorld2))) =
     length (vulnerabilities (worldOf (tick_P exampleEnv ''http://example.com'' foundWorld2))) \<and>
   targetUrl foundWorld2 \<noteq> [] \<and>
   vulnsFound (stats (startScan_P exampleEnv foundWorld2)) =
     length (vulnerabilities (startScan_P exampleEnv foundWorld2))"
proof -
  have h1: "vulnsFound (stats foundWorld) = length (vulnerabilities foundWorld)"
    "targetUrl foundWorld \<noteq> []"
    by (simp_all add: foundWorld_def idleWorld_def)
  have h2: "vulnsFound (stats foundWorld2) = length (vulnerabilities foundWorld2)"
    "targetUrl foundWorld2 \<noteq> []"
    by (simp_all add: foundWorld2_def idleWorld2_def)
  have h3: "API_KEY_AVAILABLE exampleEnv"
    by (simp add: exampleEnv_def)
  note a = C9_vulnsFound_is_list_length [of foundWorld exampleEnv xss 0 "''http://example.com''" 0 foundWorld2]
  show ?thesis
    using h1 h2 h3 a by blast
qed

text \<open>
  Claim C10. With an empty target URL \<open>startScan\<close> starts nothing. The first variant returns
  at once and changes nothing at all. The second variant appends one ERROR entry to the log
  and changes nothing else of the state: the scanning flag, the findings, the counters and
  any further state stay as they were.
\<close>

theorem C10_empty_target_never_starts:
  "(targetUrl w = [] \<longrightarrow> startScan_T env w = w) \<and>
   (targetUrl p = [] \<longrightarrow>
      logs (startScan_P env p) =
        logs p @ [\<lparr>level = ERROR, message = ''Target URL is required.'', module = CORE,
                   log_id = take 9 (drop 2 (toString36 env (Math_random env (randomCalls p)))),
                   timestamp = toLocaleTimeString env (now p)\<rparr>] \<and>
      isScanning (startScan_P env p) = isScanning p \<and>
      vulnerabilities (startScan_P env p) = vulnerabilities p \<and>
      stats (startScan_P env p) = stats p \<and>
      targetUrl (startScan_P env p) = targetUrl p \<and>
      timeouts (startScan_P env p) = timeouts p \<and>
      interval (startScan_P env p) = interval p \<and>
      apiCalls (startScan_P env p) = apiCalls p \<and>
      World2.more (startScan_P env p) = World2.more p)"
  by (simp add: startScan_T_def startScan_P_def newLog_def)

theorem C10_empty_target_never_starts_witness:
  "targetUrl blankWorld = [] \<and> startScan_T exampleEnv blankWorld = blankWorld \<and>
   \<not> isScanning blankWorld \<and>
   targetUrl blankWorld2 = [] \<and> \<not> isScanning (startScan_P exampleEnv blankWorld2) \<and>
   vulnerabilities (startScan_P exampleEnv blankWorld2) = vulnerabilities blankWorld2 \<and>
   stats (startScan_P exampleEnv blankWorld2) = stats blankWorld2 \<and>
   length (logs (startScan_P exampleEnv blankWorld2)) = length (logs blankWorld2) + 1"
proof -
  have h1: "targetUrl blankWorld = []" "\<not> isScanning blankWorld"
    by (simp_all add: blankWorld_def idleWorld_def)
  have h2: "targetUrl blankWorld2 = []" "\<not> isScanning blankWorld2"
    by (simp_all add: blankWorld2_def idleWorld2_def)
  note a = C10_empty_target_never_starts [of blankWorld exampleEnv blankWorld2]
  have "startScan_T exampleEnv blankWorld = blankWorld"
    using h1 a by blast
  moreover have "isScanning (startScan_P exampleEnv blankWorld2) = isScanning blankWorld2"
    "vulnerabilities (startScan_P exampleEnv blankWorld2) = vulnerabilities blankWorld2"
    "stats (startScan_P exampleEnv blankWorld2) = stats blankWorld2"
    using h2 a by blast+
  moreover have "length (logs (startScan_P exampleEnv blankWorld2)) = length (logs blankWorld2) + 1"
    using h2 a by simp
  ultimately show ?thesis
    using h1 h2 by simp
qed

end
